theory Spec2Isabelle
  imports Complex_Main "HOL-Library.Log_Nat"
begin

unbundle bit_operations_syntax

section \<open>Numbers\<close>

text \<open>
  A JavaScript number is an IEEE 754 double and an entry of a \<open>Float32Array\<close> is an
  IEEE 754 single. \<open>fl_round p emin\<close> rounds a real number to the nearest number with
  \<open>p\<close> significant bits and least exponent \<open>emin\<close>, ties to the even neighbour;
  \<open>dround\<close> is the rounding of every double operation and \<open>fround\<close> the rounding of a
  store into a \<open>Float32Array\<close>. Overflow to an infinity is not modelled: it needs a
  magnitude above \<open>10\<^sup>3\<^sup>8\<close>.

  The day-cycle functions and the terrain buffer below carry these roundings, since the
  statements made about them speak of exact values. The noise functions, the placement
  and the displacement routines are modelled over the real numbers, the last extended by
  the infinities and NaN that a division by zero brings in.
\<close>

definition pow2 :: "int \<Rightarrow> real" where
  "pow2 k = (if 0 \<le> k then 2 ^ nat k else 1 / 2 ^ nat (- k))"

definition round_even :: "real \<Rightarrow> int" where
  "round_even r =
     (let f = \<lfloor>r\<rfloor>; d = r - of_int f
      in if d < 1 / 2 then f else if 1 / 2 < d then f + 1 else if even f then f else f + 1)"

text \<open>
  The exponent \<open>\<lfloor>log\<^sub>2 x\<rfloor>\<close> of a positive number, from the bit length of its integer
  part or of the integer part of its reciprocal.
\<close>

definition binade :: "real \<Rightarrow> int" where
  "binade x = (if 1 \<le> x then bitlen \<lfloor>x\<rfloor> - 1 else - bitlen (\<lceil>1 / x\<rceil> - 1))"

definition fl_round :: "nat \<Rightarrow> int \<Rightarrow> real \<Rightarrow> real" where
  "fl_round p emin x =
     (if x = 0 then 0
      else
        (let e = max emin (binade \<bar>x\<bar>);
             q = pow2 (e - (int p - 1))
         in of_int (round_even (x / q)) * q))"

definition fround :: "real \<Rightarrow> real" where
  "fround x = fl_round 24 (- 126) x"

definition dround :: "real \<Rightarrow> real" where
  "dround x = fl_round 53 (- 1022) x"

text \<open>The four arithmetic operations on doubles; \<open>ddiv\<close> is used with a nonzero divisor.\<close>

definition dadd :: "real \<Rightarrow> real \<Rightarrow> real" where
  "dadd a b = dround (a + b)"

definition dsub :: "real \<Rightarrow> real \<Rightarrow> real" where
  "dsub a b = dround (a - b)"

definition dmul :: "real \<Rightarrow> real \<Rightarrow> real" where
  "dmul a b = dround (a * b)"

definition ddiv :: "real \<Rightarrow> real \<Rightarrow> real" where
  "ddiv a b = dround (a / b)"

text \<open>The conversion of a double to a 32-bit integer by a bitwise operator: truncation.\<close>

definition js_trunc :: "real \<Rightarrow> int" where
  "js_trunc v = (if 0 \<le> v then \<lfloor>v\<rfloor> else \<lceil>v\<rceil>)"

section \<open>MathUtils: gradient noise\<close>

text \<open>
  The noise functions are modelled over the real numbers, the idealisation of the doubles
  they compute with.

  The permutation table \<open>noiseTable\<close> is created once by \<open>initNoise\<close> from a random
  shuffle; it is a parameter \<open>t\<close> of every noise function here. A valid table has
  \<open>2 * noiseTableSize\<close> entries, its second half repeats the first, and the first half
  is a permutation of \<open>0..255\<close>.
\<close>

definition noiseTableSize :: nat where
  "noiseTableSize = 256"

definition valid_table :: "nat list \<Rightarrow> bool" where
  "valid_table t \<longleftrightarrow>
     length t = 2 * noiseTableSize \<and>
     drop noiseTableSize t = take noiseTableSize t \<and>
     sort (take noiseTableSize t) = [0..<noiseTableSize]"

text \<open>The table that \<open>initNoise\<close> builds when every shuffle step swaps an entry with itself.\<close>

definition identity_table :: "nat list" where
  "identity_table = [0..<noiseTableSize] @ [0..<noiseTableSize]"

definition fade :: "real \<Rightarrow> real" where
  "fade t = t * t * t * (t * (t * 6 - 15) + 10)"

definition lerp :: "real \<Rightarrow> real \<Rightarrow> real \<Rightarrow> real" where
  "lerp a b t = a + (b - a) * t"

definition grad2D :: "nat \<Rightarrow> real \<Rightarrow> real \<Rightarrow> real" where
  "grad2D hash x y =
     (let h = hash AND 3;
          u = (if h < 2 then x else y);
          v = (if h < 2 then y else x)
      in (if h AND 1 = 0 then u else - u) + (if h AND 2 = 0 then v else - v))"

definition grad3D :: "nat \<Rightarrow> real \<Rightarrow> real \<Rightarrow> real \<Rightarrow> real" where
  "grad3D hash x y z =
     (let h = hash AND 15;
          u = (if h < 8 then x else y);
          v = (if h < 4 then y else (if h = 12 \<or> h = 14 then x else z))
      in (if h AND 1 = 0 then u else - u) + (if h AND 2 = 0 then v else - v))"

text \<open>\<open>Math.floor(x) & 255\<close>: the lattice index of a coordinate.\<close>

definition cell :: "real \<Rightarrow> nat" where
  "cell x = nat (\<lfloor>x\<rfloor> AND 255)"

definition frac_part :: "real \<Rightarrow> real" where
  "frac_part x = x - of_int \<lfloor>x\<rfloor>"

definition noise :: "nat list \<Rightarrow> real \<Rightarrow> real \<Rightarrow> real" where
  "noise t x0 y0 =
     (let X = cell x0; Y = cell y0;
          x = frac_part x0; y = frac_part y0;
          u = fade x; v = fade y;
          A = t ! X + Y;
          AA = t ! A;
          AB = t ! (A + 1);
          B = t ! (X + 1) + Y;
          BA = t ! B;
          BB = t ! (B + 1)
      in lerp
           (lerp (grad2D (t ! AA) x y) (grad2D (t ! BA) (x - 1) y) u)
           (lerp (grad2D (t ! AB) x (y - 1)) (grad2D (t ! BB) (x - 1) (y - 1)) u)
           v)"

definition noise3D :: "nat list \<Rightarrow> real \<Rightarrow> real \<Rightarrow> real \<Rightarrow> real" where
  "noise3D t x0 y0 z0 =
     (let X = cell x0; Y = cell y0; Z = cell z0;
          x = frac_part x0; y = frac_part y0; z = frac_part z0;
          u = fade x; v = fade y; w = fade z;
          A = t ! X + Y;
          AA = t ! A + Z;
          AB = t ! (A + 1) + Z;
          B = t ! (X + 1) + Y;
          BA = t ! B + Z;
          BB = t ! (B + 1) + Z
      in lerp
           (lerp
              (lerp (grad3D (t ! AA) x y z) (grad3D (t ! BA) (x - 1) y z) u)
              (lerp (grad3D (t ! AB) x (y - 1) z) (grad3D (t ! BB) (x - 1) (y - 1) z) u)
              v)
           (lerp
              (lerp (grad3D (t ! (AA + 1)) x y (z - 1)) (grad3D (t ! (BA + 1)) (x - 1) y (z - 1)) u)
              (lerp (grad3D (t ! (AB + 1)) x (y - 1) (z - 1))
                    (grad3D (t ! (BB + 1)) (x - 1) (y - 1) (z - 1)) u)
              v)
           w)"

text \<open>
  \<open>fractalNoise\<close>: the \<open>for\<close> loop over the octaves, with its four loop variables as
  arguments; \<open>n\<close> is the number of iterations still to run.
\<close>

fun fractalNoise_loop ::
  "nat list \<Rightarrow> real \<Rightarrow> real \<Rightarrow> real \<Rightarrow> nat \<Rightarrow> real \<Rightarrow> real \<Rightarrow> real \<Rightarrow> real \<Rightarrow> real \<times> real" where
  "fractalNoise_loop t x y persistence 0 total_v frequency amplitude maxValue = (total_v, maxValue)"
| "fractalNoise_loop t x y persistence (Suc n) total_v frequency amplitude maxValue =
     fractalNoise_loop t x y persistence n
       (total_v + noise t (x * frequency) (y * frequency) * amplitude)
       (frequency * 2)
       (amplitude * persistence)
       (maxValue + amplitude)"

definition fractalNoise :: "nat list \<Rightarrow> real \<Rightarrow> real \<Rightarrow> nat \<Rightarrow> real \<Rightarrow> real" where
  "fractalNoise t x y octaves persistence =
     (let (total_v, maxValue) = fractalNoise_loop t x y persistence octaves 0 1 1 0
      in total_v / maxValue)"


section \<open>Environment: data\<close>

text \<open>
  A \<open>THREE.Vector3\<close>, and one entry (x, y, z) of a geometry's position buffer, is a
  triple of numbers. A position buffer is the list of its vertices, three numbers each.
\<close>

type_synonym vector3 = "real \<times> real \<times> real"

definition vx :: "vector3 \<Rightarrow> real" where "vx p = fst p"
definition vy :: "vector3 \<Rightarrow> real" where "vy p = fst (snd p)"
definition vz :: "vector3 \<Rightarrow> real" where "vz p = snd (snd p)"

text \<open>\<open>this.config\<close>, one field per entry the generation reads.\<close>

record config =
  terrain_size :: real
  terrain_segments :: nat
  terrain_heightVariation :: real
  terrain_noiseScale :: real
  trees_count :: nat
  trees_minDistance :: real
  trees_maxDistance :: real
  trees_minScale :: real
  trees_maxScale :: real
  grass_patchCount :: nat
  grass_bladesPerPatch :: nat
  grass_maxDistance :: real
  grass_minScale :: real
  grass_maxScale :: real
  flowers_count :: nat
  flowers_maxDistance :: real
  rocks_count :: nat
  rocks_minScale :: real
  rocks_maxScale :: real
  rocks_maxDistance :: real

text \<open>The configuration the constructor installs.\<close>

definition default_config :: config where
  "default_config =
     \<lparr> terrain_size = 200, terrain_segments = 64, terrain_heightVariation = 8,
       terrain_noiseScale = 5 / 100,
       trees_count = 150, trees_minDistance = 8, trees_maxDistance = 80,
       trees_minScale = 8 / 10, trees_maxScale = 22 / 10,
       grass_patchCount = 300, grass_bladesPerPatch = 50, grass_maxDistance = 60,
       grass_minScale = 5 / 10, grass_maxScale = 15 / 10,
       flowers_count = 200, flowers_maxDistance = 50,
       rocks_count = 80, rocks_minScale = 3 / 10, rocks_maxScale = 18 / 10,
       rocks_maxDistance = 70 \<rparr>"


datatype treeType = Oak | Pine | Birch

datatype flowerType = Daisy | Wildflower | Poppy

text \<open>
  The placed instances, with the transform each \<open>create...\<close> function gives them. The
  generated meshes of trunks, crowns, petals and rocks are not part of an instance here;
  the displacement of mesh vertices is modelled on its own further below.
\<close>

record tree =
  tree_position :: vector3
  tree_scale :: real
  tree_type :: treeType
  tree_rotationY :: real

record grassBlade =
  blade_position :: vector3
  blade_scale :: real
  blade_rotationY :: real

record flower =
  flower_position :: vector3
  flower_scale :: real
  flower_type :: flowerType
  flower_colorIndex :: nat
  flower_rotationY :: real

record rock =
  rock_position :: vector3
  rock_scale :: real
  rock_rotation :: vector3

text \<open>
  The state of an \<open>Environment\<close> object. \<open>terrain\<close> is \<open>None\<close> for \<open>null\<close> and holds the
  position buffer of the terrain mesh once \<open>generateTerrain\<close> has run.
\<close>

record environment =
  config :: config
  terrain :: "vector3 list option"
  trees :: "tree list"
  grassPatches :: "grassBlade list list"
  flowers :: "flower list"
  rocks :: "rock list"

definition new_environment :: "config \<Rightarrow> environment" where
  "new_environment c =
     \<lparr> config = c, terrain = None, trees = [], grassPatches = [], flowers = [], rocks = [] \<rparr>"

section \<open>Environment: terrain\<close>

text \<open>
  \<open>THREE.PlaneGeometry(width, height, widthSegments, heightSegments)\<close> belongs to the
  three.js library, of which the page loads release r128. It computes the coordinates of
  the grid in doubles, lays \<open>(widthSegments + 1) * (heightSegments + 1)\<close> vertices out row by
  row in the plane \<open>z = 0\<close> and stores them in a \<open>Float32Array\<close>. Without a segment it
  divides by zero; the statements about it below are for at least one segment.
\<close>

definition PlaneGeometry :: "real \<Rightarrow> real \<Rightarrow> nat \<Rightarrow> nat \<Rightarrow> vector3 list" where
  "PlaneGeometry width height widthSegments heightSegments =
     (let width_half = ddiv width 2;
          height_half = ddiv height 2;
          segment_width = ddiv width (real widthSegments);
          segment_height = ddiv height (real heightSegments)
      in concat (map (\<lambda>iy. map (\<lambda>ix.
           (fround (dsub (dmul (real ix) segment_width) width_half),
            fround (- dsub (dmul (real iy) segment_height) height_half),
            0))
         [0..<widthSegments + 1]) [0..<heightSegments + 1]))"

text \<open>
  The body of the loop of \<open>generateTerrain\<close> for one vertex: it reads entries \<open>i\<close> and
  \<open>i + 2\<close> of the buffer and overwrites entry \<open>i + 1\<close>. The buffer is a \<open>Float32Array\<close>,
  so the height is rounded to single precision when it is stored.
\<close>

definition generateTerrain_vertex :: "nat list \<Rightarrow> config \<Rightarrow> vector3 \<Rightarrow> vector3" where
  "generateTerrain_vertex t c v =
     (let x = vx v; z = vz v;
          height = 0;
          height = height + noise t (x * terrain_noiseScale c) (z * terrain_noiseScale c)
                     * terrain_heightVariation c;
          height = height + noise t (x * terrain_noiseScale c * 2) (z * terrain_noiseScale c * 2)
                     * terrain_heightVariation c * (5 / 10);
          height = height + noise t (x * terrain_noiseScale c * 4) (z * terrain_noiseScale c * 4)
                     * terrain_heightVariation c * (25 / 100)
      in (x, fround height, z))"

definition generateTerrain :: "nat list \<Rightarrow> environment \<Rightarrow> environment" where
  "generateTerrain t env =
     (let c = config env;
          geometry = PlaneGeometry (terrain_size c) (terrain_size c)
                       (terrain_segments c) (terrain_segments c);
          vertices = map (generateTerrain_vertex t c) geometry
      in env\<lparr>terrain := Some vertices\<rparr>)"

definition getTerrainHeightAt :: "nat list \<Rightarrow> environment \<Rightarrow> real \<Rightarrow> real \<Rightarrow> real" where
  "getTerrainHeightAt t env x z =
     (if terrain env = None then 0
      else
        (let c = config env;
             height = 0;
             height = height + noise t (x * terrain_noiseScale c) (z * terrain_noiseScale c)
                        * terrain_heightVariation c;
             height = height + noise t (x * terrain_noiseScale c * 2) (z * terrain_noiseScale c * 2)
                        * terrain_heightVariation c * (5 / 10);
             height = height + noise t (x * terrain_noiseScale c * 4) (z * terrain_noiseScale c * 4)
                        * terrain_heightVariation c * (25 / 100)
         in height))"

section \<open>Environment: placement\<close>

text \<open>
  \<open>Math.random()\<close> is the only source of nondeterminism. Every function that calls it
  takes as an argument \<open>r\<close> the results of those of its calls that reach a modelled field
  (\<open>r 0\<close> the first of them, \<open>r 1\<close> the second, and so on, each in \<open>[0, 1)\<close>); the draws
  that only shape a generated mesh are not listed. A statement over all such arguments
  covers every run.
\<close>

definition unit_draws :: "(nat \<Rightarrow> real) \<Rightarrow> bool" where
  "unit_draws r \<longleftrightarrow> (\<forall>i. 0 \<le> r i \<and> r i < 1)"

definition random_range :: "real \<Rightarrow> real \<Rightarrow> real \<Rightarrow> real" where
  "random_range r lo hi = lo + r * (hi - lo)"

definition getRandomTerrainPosition :: "real \<Rightarrow> (nat \<Rightarrow> real) \<Rightarrow> vector3" where
  "getRandomTerrainPosition maxDistance r =
     (let angle = r 0 * pi * 2;
          distance = r 1 * maxDistance
      in (cos angle * distance, 0, sin angle * distance))"

text \<open>\<open>THREE.Vector3.distanceTo\<close>.\<close>

definition distanceTo :: "vector3 \<Rightarrow> vector3 \<Rightarrow> real" where
  "distanceTo p q = sqrt ((vx p - vx q)\<^sup>2 + (vy p - vy q)\<^sup>2 + (vz p - vz q)\<^sup>2)"

fun isValidTreePosition :: "vector3 \<Rightarrow> vector3 list \<Rightarrow> real \<Rightarrow> bool" where
  "isValidTreePosition position [] minDistance = True"
| "isValidTreePosition position (existingPos # rest) minDistance =
     (if distanceTo position existingPos < minDistance then False
      else isValidTreePosition position rest minDistance)"

definition maxAttempts :: nat where
  "maxAttempts = 50"

text \<open>
  The \<open>do ... while\<close> loop of \<open>placeTrees\<close>. \<open>cand k\<close> holds the two draws of the
  \<open>k\<close>-th call of \<open>getRandomTerrainPosition\<close> in the run, \<open>k\<close> counts those calls. The
  result is the last position drawn, the value of \<open>attempts\<close> and the new call count.
\<close>

function find_position ::
  "(nat \<Rightarrow> nat \<Rightarrow> real) \<Rightarrow> config \<Rightarrow> vector3 list \<Rightarrow> nat \<Rightarrow> nat \<Rightarrow> vector3 \<times> nat \<times> nat" where
  "find_position cand c placedPositions attempts k =
     (let position = getRandomTerrainPosition (trees_maxDistance c) (cand k);
          attempts = attempts + 1
      in if attempts < maxAttempts
            \<and> \<not> isValidTreePosition position placedPositions (trees_minDistance c)
         then find_position cand c placedPositions attempts (k + 1)
         else (position, attempts, k + 1))"
  by pat_completeness auto
termination
  by (relation "measure (\<lambda>(cand, c, placedPositions, attempts, k). maxAttempts - attempts)") auto

declare find_position.simps [simp del]

definition treeTypes :: "treeType list" where
  "treeTypes = [Oak, Pine, Birch]"

definition flowerTypes :: "flowerType list" where
  "flowerTypes = [Daisy, Wildflower, Poppy]"

definition flowerColors :: nat where
  "flowerColors = 5"

text \<open>
  \<open>createTree\<close>: the group takes a copy of \<open>position\<close>, whose \<open>y\<close> is the \<open>0\<close> that
  \<open>getRandomTerrainPosition\<close> put there. The draws are the scale, the type and the rotation.
\<close>

definition createTree :: "config \<Rightarrow> vector3 \<Rightarrow> (nat \<Rightarrow> real) \<Rightarrow> tree" where
  "createTree c position r =
     (let scale = random_range (r 0) (trees_minScale c) (trees_maxScale c);
          treeType = treeTypes ! nat \<lfloor>r 1 * real (length treeTypes)\<rfloor>
      in \<lparr> tree_position = position, tree_scale = scale, tree_type = treeType,
           tree_rotationY = r 2 * pi * 2 \<rparr>)"

text \<open>
  The state of the loop of \<open>placeTrees\<close>: the environment with its \<open>trees\<close>, the local
  \<open>placedPositions\<close>, and the number of positions drawn so far.
\<close>

record placement =
  p_env :: environment
  placedPositions :: "vector3 list"
  drawn :: nat

text \<open>
  One iteration of the \<open>for\<close> loop, for loop index \<open>i\<close>. An object is always truthy, so
  the test \<open>if (tree)\<close> succeeds whenever it is reached.
\<close>

definition placeTrees_step ::
  "(nat \<Rightarrow> nat \<Rightarrow> real) \<Rightarrow> (nat \<Rightarrow> nat \<Rightarrow> real) \<Rightarrow> nat \<Rightarrow> placement \<Rightarrow> placement" where
  "placeTrees_step cand tr i st =
     (let c = config (p_env st);
          (position, attempts, k) = find_position cand c (placedPositions st) 0 (drawn st)
      in if attempts \<ge> maxAttempts then st\<lparr>drawn := k\<rparr>
         else
           (let tree = createTree c position (tr i)
            in st\<lparr> p_env := (p_env st)\<lparr>trees := trees (p_env st) @ [tree]\<rparr>,
                    placedPositions := placedPositions st @ [position],
                    drawn := k \<rparr>))"

definition placeTrees_run ::
  "(nat \<Rightarrow> nat \<Rightarrow> real) \<Rightarrow> (nat \<Rightarrow> nat \<Rightarrow> real) \<Rightarrow> environment \<Rightarrow> placement" where
  "placeTrees_run cand tr env =
     fold (placeTrees_step cand tr) [0..<trees_count (config env)]
       \<lparr> p_env = env, placedPositions = [], drawn = 0 \<rparr>"

definition placeTrees ::
  "(nat \<Rightarrow> nat \<Rightarrow> real) \<Rightarrow> (nat \<Rightarrow> nat \<Rightarrow> real) \<Rightarrow> environment \<Rightarrow> environment" where
  "placeTrees cand tr env = p_env (placeTrees_run cand tr env)"


text \<open>
  \<open>createGrassPatch\<close>: after the draw for the patch scale, each blade uses four draws
  (x offset, z offset, blade scale, rotation).
\<close>

definition createGrassPatch ::
  "nat list \<Rightarrow> environment \<Rightarrow> vector3 \<Rightarrow> (nat \<Rightarrow> real) \<Rightarrow> grassBlade list" where
  "createGrassPatch t env position r =
     (let c = config env;
          scale = random_range (r 0) (grass_minScale c) (grass_maxScale c);
          patchSize = 2
      in map (\<lambda>i.
           (let x = vx position + (r (4 * i + 1) - 5 / 10) * patchSize;
                z = vz position + (r (4 * i + 2) - 5 / 10) * patchSize;
                y = getTerrainHeightAt t env x z;
                bladeScale = scale * (8 / 10 + r (4 * i + 3) * (4 / 10));
                rotation = r (4 * i + 4) * pi * 2
            in \<lparr> blade_position = (x, y, z), blade_scale = bladeScale,
                 blade_rotationY = rotation \<rparr>))
         [0..<grass_bladesPerPatch c])"

text \<open>
  In the three loops below, \<open>rs i\<close> holds the draws of iteration \<open>i\<close>: the first two go to
  \<open>getRandomTerrainPosition\<close>, the rest to the \<open>create...\<close> call.
\<close>

definition createGrassPatches_step ::
  "nat list \<Rightarrow> (nat \<Rightarrow> nat \<Rightarrow> real) \<Rightarrow> nat \<Rightarrow> environment \<Rightarrow> environment" where
  "createGrassPatches_step t rs i env =
     (let position = getRandomTerrainPosition (grass_maxDistance (config env)) (rs i);
          grassPatch = createGrassPatch t env position (\<lambda>j. rs i (j + 2))
      in env\<lparr>grassPatches := grassPatches env @ [grassPatch]\<rparr>)"

definition createGrassPatches ::
  "nat list \<Rightarrow> (nat \<Rightarrow> nat \<Rightarrow> real) \<Rightarrow> environment \<Rightarrow> environment" where
  "createGrassPatches t rs env =
     fold (createGrassPatches_step t rs) [0..<grass_patchCount (config env)] env"

definition createFlower ::
  "nat list \<Rightarrow> environment \<Rightarrow> vector3 \<Rightarrow> (nat \<Rightarrow> real) \<Rightarrow> flower" where
  "createFlower t env position r =
     (let colorIndex = nat \<lfloor>r 0 * real flowerColors\<rfloor>;
          flowerType = flowerTypes ! nat \<lfloor>r 1 * real (length flowerTypes)\<rfloor>;
          y = getTerrainHeightAt t env (vx position) (vz position) + 1 / 10
      in \<lparr> flower_position = (vx position, y, vz position),
           flower_scale = 5 / 10 + r 3 * (5 / 10),
           flower_type = flowerType,
           flower_colorIndex = colorIndex,
           flower_rotationY = r 2 * pi * 2 \<rparr>)"

definition placeFlowers_step ::
  "nat list \<Rightarrow> (nat \<Rightarrow> nat \<Rightarrow> real) \<Rightarrow> nat \<Rightarrow> environment \<Rightarrow> environment" where
  "placeFlowers_step t rs i env =
     (let position = getRandomTerrainPosition (flowers_maxDistance (config env)) (rs i);
          flower = createFlower t env position (\<lambda>j. rs i (j + 2))
      in env\<lparr>flowers := flowers env @ [flower]\<rparr>)"

definition placeFlowers ::
  "nat list \<Rightarrow> (nat \<Rightarrow> nat \<Rightarrow> real) \<Rightarrow> environment \<Rightarrow> environment" where
  "placeFlowers t rs env =
     fold (placeFlowers_step t rs) [0..<flowers_count (config env)] env"

definition createRock ::
  "nat list \<Rightarrow> environment \<Rightarrow> vector3 \<Rightarrow> (nat \<Rightarrow> real) \<Rightarrow> rock" where
  "createRock t env position r =
     (let c = config env;
          scale = random_range (r 0) (rocks_minScale c) (rocks_maxScale c);
          y = getTerrainHeightAt t env (vx position) (vz position)
      in \<lparr> rock_position = (vx position, y, vz position),
           rock_scale = scale,
           rock_rotation = ((r 1 - 5 / 10) * (3 / 10), r 2 * pi * 2, (r 3 - 5 / 10) * (3 / 10)) \<rparr>)"

definition placeRocks_step ::
  "nat list \<Rightarrow> (nat \<Rightarrow> nat \<Rightarrow> real) \<Rightarrow> nat \<Rightarrow> environment \<Rightarrow> environment" where
  "placeRocks_step t rs i env =
     (let position = getRandomTerrainPosition (rocks_maxDistance (config env)) (rs i);
          rock = createRock t env position (\<lambda>j. rs i (j + 2))
      in env\<lparr>rocks := rocks env @ [rock]\<rparr>)"

definition placeRocks ::
  "nat list \<Rightarrow> (nat \<Rightarrow> nat \<Rightarrow> real) \<Rightarrow> environment \<Rightarrow> environment" where
  "placeRocks t rs env =
     fold (placeRocks_step t rs) [0..<rocks_count (config env)] env"

text \<open>All the draws of one run of \<open>init\<close>, by the loop that consumes them.\<close>

record draws =
  tree_candidates :: "nat \<Rightarrow> nat \<Rightarrow> real"
  tree_draws :: "nat \<Rightarrow> nat \<Rightarrow> real"
  grass_draws :: "nat \<Rightarrow> nat \<Rightarrow> real"
  flower_draws :: "nat \<Rightarrow> nat \<Rightarrow> real"
  rock_draws :: "nat \<Rightarrow> nat \<Rightarrow> real"

definition placeVegetation :: "nat list \<Rightarrow> draws \<Rightarrow> environment \<Rightarrow> environment" where
  "placeVegetation t d env =
     (let env = placeTrees (tree_candidates d) (tree_draws d) env;
          env = createGrassPatches t (grass_draws d) env;
          env = placeFlowers t (flower_draws d) env
      in env)"

text \<open>
  \<open>init\<close>: terrain, vegetation, then rocks. Materials, the scene graph and the statistics
  hold no position and are left out.
\<close>

definition init :: "nat list \<Rightarrow> draws \<Rightarrow> environment \<Rightarrow> environment" where
  "init t d env =
     (let env = generateTerrain t env;
          env = placeVegetation t d env;
          env = placeRocks t (rock_draws d) env
      in env)"

text \<open>
  What the specification means by a request that cannot be met: no \<open>n\<close> points of the
  disk of radius \<open>maxDistance\<close> around the origin lie pairwise at least \<open>minDistance\<close> apart.
\<close>

definition apart :: "real \<Rightarrow> vector3 list \<Rightarrow> bool" where
  "apart minDistance ps \<longleftrightarrow>
     (\<forall>i < length ps. \<forall>j < length ps. i \<noteq> j \<longrightarrow> minDistance \<le> distanceTo (ps ! i) (ps ! j))"

definition in_disk :: "real \<Rightarrow> vector3 \<Rightarrow> bool" where
  "in_disk maxDistance p \<longleftrightarrow> vy p = 0 \<and> (vx p)\<^sup>2 + (vz p)\<^sup>2 \<le> maxDistance\<^sup>2"

definition feasible :: "nat \<Rightarrow> real \<Rightarrow> real \<Rightarrow> bool" where
  "feasible n minDistance maxDistance \<longleftrightarrow>
     (\<exists>ps. length ps = n \<and> (\<forall>p \<in> set ps. in_disk maxDistance p) \<and> apart minDistance ps)"

text \<open>
  The cell of a coordinate in a grid of three columns of width 10 over \<open>[-15, 15]\<close>,
  used to show that ten points of that disk cannot all be 20 apart.
\<close>

definition square_cell :: "real \<Rightarrow> nat" where
  "square_cell x = (if x < - 5 then 0 else if x < 5 then 1 else 2)"

text \<open>
  The invariant of the loop of \<open>placeTrees\<close> after \<open>n\<close> iterations, started on \<open>env\<close>.
\<close>

definition placement_inv :: "(nat \<Rightarrow> nat \<Rightarrow> real) \<Rightarrow> environment \<Rightarrow> nat \<Rightarrow> placement \<Rightarrow> bool" where
  "placement_inv cand env n st \<longleftrightarrow>
     config (p_env st) = config env \<and> terrain (p_env st) = terrain env
     \<and> grassPatches (p_env st) = grassPatches env \<and> flowers (p_env st) = flowers env
     \<and> rocks (p_env st) = rocks env
     \<and> map tree_position (trees (p_env st)) = map tree_position (trees env) @ placedPositions st
     \<and> length (placedPositions st) \<le> n
     \<and> drawn st \<le> n * maxAttempts
     \<and> apart (trees_minDistance (config env)) (placedPositions st)
     \<and> (\<forall>p \<in> set (placedPositions st).
           \<exists>k. p = getRandomTerrainPosition (trees_maxDistance (config env)) (cand k))"

text \<open>What it means for an instance to sit on the ground of \<open>env\<close>, or a fixed offset above it.\<close>

definition on_ground :: "nat list \<Rightarrow> environment \<Rightarrow> real \<Rightarrow> vector3 \<Rightarrow> bool" where
  "on_ground t env offset p \<longleftrightarrow> vy p = getTerrainHeightAt t env (vx p) (vz p) + offset"

definition same_ground :: "environment \<Rightarrow> environment \<Rightarrow> bool" where
  "same_ground e env \<longleftrightarrow> config e = config env \<and> terrain e = terrain env"

definition grounded_env :: "nat list \<Rightarrow> environment \<Rightarrow> bool" where
  "grounded_env t e \<longleftrightarrow>
     (\<forall>patch \<in> set (grassPatches e). \<forall>b \<in> set patch. on_ground t e 0 (blade_position b))
     \<and> (\<forall>f \<in> set (flowers e). on_ground t e (1 / 10) (flower_position f))
     \<and> (\<forall>r \<in> set (rocks e). on_ground t e 0 (rock_position r))"

text \<open>Two draws and a configuration on which two trees are placed, 40 apart.\<close>

definition two_tree_candidates :: "nat \<Rightarrow> nat \<Rightarrow> real" where
  "two_tree_candidates k j = (if j = 1 then real k / 2 else 0)"

definition two_tree_config :: config where
  "two_tree_config = default_config\<lparr>trees_count := 2\<rparr>"

text \<open>
  The request of the specification's second scenario (10 trees, 20 apart, within 15 of the
  origin), and a run in which every draw is 0.
\<close>

definition dense_config :: config where
  "dense_config = default_config\<lparr>trees_count := 10, trees_minDistance := 20, trees_maxDistance := 15\<rparr>"

definition zero_draws :: draws where
  "zero_draws = \<lparr> tree_candidates = (\<lambda>k j. 0), tree_draws = (\<lambda>i j. 0), grass_draws = (\<lambda>i j. 0),
                  flower_draws = (\<lambda>i j. 0), rock_draws = (\<lambda>i j. 0) \<rparr>"

text \<open>
  The default environment after \<open>generateTerrain\<close>, a sequence of draws that are all 0,
  and a configuration with a single grass patch.
\<close>

definition generated_default :: environment where
  "generated_default = generateTerrain identity_table (new_environment default_config)"

definition no_draws :: "nat \<Rightarrow> real" where
  "no_draws j = 0"

definition one_patch_config :: config where
  "one_patch_config = default_config\<lparr>grass_patchCount := 1\<rparr>"

section \<open>Lighting: the day cycle\<close>



text \<open>
  \<open>THREE.Color\<close> belongs to three.js, of which the page loads release r128. There
  \<open>new Color(hex)\<close> divides each byte of \<open>hex\<close> by 255, \<open>lerp\<close> adds to each channel its
  difference to the other colour times \<open>alpha\<close>, and \<open>getHex\<close> is
  \<open>(r * 255) << 16 ^ (g * 255) << 8 ^ (b * 255) << 0\<close>, which truncates each product.
\<close>

definition Color :: "int \<Rightarrow> vector3" where
  "Color hex =
     (ddiv (of_int (drop_bit 16 hex AND 255)) 255,
      ddiv (of_int (drop_bit 8 hex AND 255)) 255,
      ddiv (of_int (hex AND 255)) 255)"

definition Color_lerp :: "vector3 \<Rightarrow> vector3 \<Rightarrow> real \<Rightarrow> vector3" where
  "Color_lerp c1 c2 alpha =
     (dadd (vx c1) (dmul (dsub (vx c2) (vx c1)) alpha),
      dadd (vy c1) (dmul (dsub (vy c2) (vy c1)) alpha),
      dadd (vz c1) (dmul (dsub (vz c2) (vz c1)) alpha))"

definition getHex :: "vector3 \<Rightarrow> int" where
  "getHex c =
     push_bit 16 (js_trunc (dmul (vx c) 255))
       XOR push_bit 8 (js_trunc (dmul (vy c) 255))
       XOR push_bit 0 (js_trunc (dmul (vz c) 255))"

definition interpolateColor :: "int \<Rightarrow> int \<Rightarrow> real \<Rightarrow> int" where
  "interpolateColor color1 color2 factor = getHex (Color_lerp (Color color1) (Color color2) factor)"








section \<open>GeometryUtils: displacement of mesh vertices\<close>

text \<open>
  A coordinate written by a displacement routine is a number, an infinity or NaN. Input
  buffers hold numbers. The operations follow IEEE 754 where an operand is not a number
  or a divisor is zero, and are those of the real numbers otherwise; a zero is the
  positive zero.
\<close>

datatype jsnum = Num real | PosInf | NegInf | NaN

fun js_neg :: "jsnum \<Rightarrow> jsnum" where
  "js_neg (Num a) = Num (- a)"
| "js_neg PosInf = NegInf"
| "js_neg NegInf = PosInf"
| "js_neg NaN = NaN"

fun js_add :: "jsnum \<Rightarrow> jsnum \<Rightarrow> jsnum" where
  "js_add (Num a) (Num b) = Num (a + b)"
| "js_add NaN b = NaN"
| "js_add a NaN = NaN"
| "js_add PosInf NegInf = NaN"
| "js_add NegInf PosInf = NaN"
| "js_add PosInf b = PosInf"
| "js_add a PosInf = PosInf"
| "js_add NegInf b = NegInf"
| "js_add a NegInf = NegInf"

definition js_sub :: "jsnum \<Rightarrow> jsnum \<Rightarrow> jsnum" where
  "js_sub a b = js_add a (js_neg b)"

fun js_mul :: "jsnum \<Rightarrow> jsnum \<Rightarrow> jsnum" where
  "js_mul (Num a) (Num b) = Num (a * b)"
| "js_mul NaN b = NaN"
| "js_mul a NaN = NaN"
| "js_mul (Num a) PosInf = (if a = 0 then NaN else if 0 < a then PosInf else NegInf)"
| "js_mul (Num a) NegInf = (if a = 0 then NaN else if 0 < a then NegInf else PosInf)"
| "js_mul PosInf (Num b) = (if b = 0 then NaN else if 0 < b then PosInf else NegInf)"
| "js_mul NegInf (Num b) = (if b = 0 then NaN else if 0 < b then NegInf else PosInf)"
| "js_mul PosInf PosInf = PosInf"
| "js_mul PosInf NegInf = NegInf"
| "js_mul NegInf PosInf = NegInf"
| "js_mul NegInf NegInf = PosInf"

fun js_div :: "jsnum \<Rightarrow> jsnum \<Rightarrow> jsnum" where
  "js_div (Num a) (Num b) =
     (if b \<noteq> 0 then Num (a / b)
      else if a = 0 then NaN else if 0 < a then PosInf else NegInf)"
| "js_div NaN b = NaN"
| "js_div a NaN = NaN"
| "js_div (Num a) b = Num 0"
| "js_div PosInf (Num b) = (if 0 \<le> b then PosInf else NegInf)"
| "js_div NegInf (Num b) = (if 0 \<le> b then NegInf else PosInf)"
| "js_div a b = NaN"

fun js_sin :: "jsnum \<Rightarrow> jsnum" where
  "js_sin (Num a) = Num (sin a)"
| "js_sin a = NaN"

fun js_cos :: "jsnum \<Rightarrow> jsnum" where
  "js_cos (Num a) = Num (cos a)"
| "js_cos a = NaN"

text \<open>
  \<open>Math.acos(y / radius)\<close> where \<open>radius\<close> is the length of a vector with component \<open>y\<close>:
  a zero radius makes the quotient \<open>0 / 0\<close>, which is NaN, and the arc cosine of NaN is NaN.
\<close>

definition acos_ratio :: "real \<Rightarrow> real \<Rightarrow> jsnum" where
  "acos_ratio y radius = (if radius = 0 then NaN else Num (arccos (y / radius)))"

text \<open>\<open>Math.atan2(z, x)\<close>.\<close>

definition atan2 :: "real \<Rightarrow> real \<Rightarrow> real" where
  "atan2 z x =
     (if 0 < x then arctan (z / x)
      else if x < 0 then (if 0 \<le> z then arctan (z / x) + pi else arctan (z / x) - pi)
      else if 0 < z then pi / 2
      else if z < 0 then - (pi / 2)
      else 0)"

definition addSphereIrregularities_vertex ::
  "nat list \<Rightarrow> real \<Rightarrow> vector3 \<Rightarrow> jsnum \<times> jsnum \<times> jsnum" where
  "addSphereIrregularities_vertex t strength v =
     (let x = vx v; y = vy v; z = vz v;
          radius = sqrt (x * x + y * y + z * z);
          theta = atan2 z x;
          phi = acos_ratio y radius;
          noiseScale = 2;
          noiseValue = noise3D t (x * noiseScale) (y * noiseScale) (z * noiseScale);
          radiusMultiplier = 1 + noiseValue * strength;
          newRadius = radius * radiusMultiplier
      in (js_mul (js_mul (Num newRadius) (js_sin phi)) (Num (cos theta)),
          js_mul (Num newRadius) (js_cos phi),
          js_mul (js_mul (Num newRadius) (js_sin phi)) (Num (sin theta))))"

definition addSphereIrregularities ::
  "nat list \<Rightarrow> real \<Rightarrow> vector3 list \<Rightarrow> (jsnum \<times> jsnum \<times> jsnum) list" where
  "addSphereIrregularities t strength positions =
     map (addSphereIrregularities_vertex t strength) positions"

definition addRockIrregularities_vertex :: "nat list \<Rightarrow> real \<Rightarrow> vector3 \<Rightarrow> vector3" where
  "addRockIrregularities_vertex t irregularity v =
     (let x = vx v; y = vy v; z = vz v;
          noiseScale1 = 15 / 10; noiseScale2 = 3; noiseScale3 = 6;
          noise1 = noise3D t (x * noiseScale1) (y * noiseScale1) (z * noiseScale1);
          noise2 = noise3D t (x * noiseScale2) (y * noiseScale2) (z * noiseScale2) * (5 / 10);
          noise3 = noise3D t (x * noiseScale3) (y * noiseScale3) (z * noiseScale3) * (25 / 100);
          totalNoise = noise1 + noise2 + noise3;
          displacement = totalNoise * irregularity;
          len = sqrt (x * x + y * y + z * z)
      in if len > 0
         then (x + x / len * displacement, y + y / len * displacement, z + z / len * displacement)
         else (x, y, z))"

definition addRockIrregularities :: "nat list \<Rightarrow> real \<Rightarrow> vector3 list \<Rightarrow> vector3 list" where
  "addRockIrregularities t irregularity positions =
     map (addRockIrregularities_vertex t irregularity) positions"

text \<open>
  \<open>addTrunkIrregularities\<close> scales \<open>x\<close> and \<open>z\<close> of every vertex and leaves \<open>y\<close> as it
  is. It divides by \<open>config.height\<close>; with a height of 0 the quotient is an infinity or
  NaN, which the multiplications carry into \<open>x\<close> and \<open>z\<close>.
\<close>

definition addTrunkIrregularities_vertex ::
  "nat list \<Rightarrow> real \<Rightarrow> real \<Rightarrow> vector3 \<Rightarrow> jsnum \<times> jsnum \<times> jsnum" where
  "addTrunkIrregularities_vertex t height irregularity v =
     (let x = vx v; y = vy v; z = vz v;
          heightRatio = js_div (Num (y + height / 2)) (Num height);
          angle = atan2 z x;
          radius = sqrt (x * x + z * z);
          noiseScale = 5 / 10;
          noiseValue = noise t (angle * noiseScale) (y * noiseScale * (3 / 10));
          irregularityStrength =
            js_mul (Num irregularity) (js_sub (Num 1) (js_mul heightRatio (Num (5 / 10))));
          radiusMultiplier = js_add (Num 1) (js_mul (Num noiseValue) irregularityStrength)
      in (js_mul (Num x) radiusMultiplier, Num y, js_mul (Num z) radiusMultiplier))"

definition addTrunkIrregularities ::
  "nat list \<Rightarrow> real \<Rightarrow> real \<Rightarrow> vector3 list \<Rightarrow> (jsnum \<times> jsnum \<times> jsnum) list" where
  "addTrunkIrregularities t height irregularity positions =
     map (addTrunkIrregularities_vertex t height irregularity) positions"

text \<open>The embedding of an input buffer into the type of output buffers.\<close>

definition as_output :: "vector3 list \<Rightarrow> (jsnum \<times> jsnum \<times> jsnum) list" where
  "as_output positions = map (\<lambda>v. (Num (vx v), Num (vy v), Num (vz v))) positions"


section \<open>Properties of the roundings\<close>

lemma pow2_powr: "pow2 k = 2 powr (of_int k)"
  by (simp add: pow2_def powr_real_of_int inverse_eq_divide)

lemma pow2_pos: "0 < pow2 k"
  by (simp add: pow2_powr)



lemma floor_log2_eq:
  assumes "pow2 e \<le> \<bar>x\<bar>" and "\<bar>x\<bar> < pow2 (e + 1)"
  shows "\<lfloor>log 2 \<bar>x\<bar>\<rfloor> = e"
proof -
  have "0 < \<bar>x\<bar>" using assms(1) pow2_pos [of e] by linarith
  then show ?thesis
    using assms by (simp add: floor_log_eq_powr_iff pow2_powr)
qed

lemma binade_log:
  assumes "0 < x"
  shows "binade x = \<lfloor>log 2 x\<rfloor>"
proof (cases "1 \<le> x")
  case True
  define m where "m = \<lfloor>x\<rfloor>"
  have m: "0 < m" using True by (simp add: m_def)
  define e where "e = bitlen m - 1"
  have e0: "0 \<le> e" using m by (simp add: e_def bitlen_alt_def)
  have b: "2 ^ nat e \<le> m" "m < 2 ^ nat (e + 1)"
    using bitlen_bounds [OF m] by (simp_all add: e_def)
  have p: "pow2 e = 2 ^ nat e" "pow2 (e + 1) = 2 ^ nat (e + 1)"
    using e0 by (simp_all add: pow2_def)
  have "real_of_int (2 ^ nat e) \<le> real_of_int m" using b(1) by (simp only: of_int_le_iff)
  then have r1: "(2::real) ^ nat e \<le> real_of_int m" by simp
  have r2: "real_of_int m \<le> x" by (simp add: m_def)
  have l: "pow2 e \<le> \<bar>x\<bar>" unfolding p using r1 r2 by linarith
  have "m + 1 \<le> 2 ^ nat (e + 1)" using b(2) by simp
  then have "real_of_int (m + 1) \<le> real_of_int (2 ^ nat (e + 1))" by (simp only: of_int_le_iff)
  then have r3: "real_of_int m + 1 \<le> 2 ^ nat (e + 1)" by simp
  have r4: "x < real_of_int m + 1" unfolding m_def by linarith
  have u: "\<bar>x\<bar> < pow2 (e + 1)" unfolding p using r3 r4 True by linarith
  have "\<lfloor>log 2 \<bar>x\<bar>\<rfloor> = e" using l u by (rule floor_log2_eq)
  then show ?thesis using True by (simp add: binade_def e_def m_def)
next
  case False
  then have x1: "x < 1" by simp
  define y where "y = 1 / x"
  have y1: "1 < y" using assms x1 by (simp add: y_def)
  define m where "m = \<lceil>y\<rceil> - 1"
  have m: "0 < m" unfolding m_def using y1 by linarith
  define k where "k = bitlen m"
  have k1: "1 \<le> k" using m by (simp add: k_def bitlen_alt_def)
  have b: "2 ^ nat (k - 1) \<le> m" "m < 2 ^ nat k"
    using bitlen_bounds [OF m] by (simp_all add: k_def)
  have "m + 1 \<le> 2 ^ nat k" using b(2) by simp
  then have "real_of_int (m + 1) \<le> real_of_int (2 ^ nat k)" by (simp only: of_int_le_iff)
  then have r1: "real_of_int m + 1 \<le> 2 ^ nat k" by simp
  have r2: "y \<le> real_of_int m + 1" unfolding m_def by simp
  have yu: "y \<le> 2 ^ nat k" using r1 r2 by linarith
  have "real_of_int (2 ^ nat (k - 1)) \<le> real_of_int m" using b(1) by (simp only: of_int_le_iff)
  then have r3: "(2::real) ^ nat (k - 1) \<le> real_of_int m" by simp
  have r4: "real_of_int m < y" unfolding m_def by linarith
  have yl: "2 ^ nat (k - 1) < y" using r3 r4 by linarith
  have p: "(0::real) < 2 ^ nat k" "(0::real) < 2 ^ nat (k - 1)" by simp_all
  have xl: "1 / 2 ^ nat k \<le> x"
    using yu assms p(1) by (simp add: y_def field_simps)
  have "pow2 (- k) = 1 / 2 ^ nat k" using k1 by (simp add: pow2_def)
  then have l: "pow2 (- k) \<le> \<bar>x\<bar>" using xl assms by simp
  have xu: "x < 1 / 2 ^ nat (k - 1)"
    using yl assms p(2) by (simp add: y_def field_simps)
  have "pow2 (- k + 1) = 1 / 2 ^ nat (k - 1)"
  proof (cases "k = 1")
    case True
    then show ?thesis by (simp add: pow2_def)
  next
    case False
    then have "- k + 1 < 0" using k1 by simp
    moreover have "nat (- (- k + 1)) = nat (k - 1)" by simp
    ultimately show ?thesis by (simp add: pow2_def)
  qed
  then have u: "\<bar>x\<bar> < pow2 (- k + 1)" using xu assms by simp
  have "\<lfloor>log 2 \<bar>x\<bar>\<rfloor> = - k" using l u by (rule floor_log2_eq)
  then show ?thesis using False assms by (simp add: binade_def k_def m_def y_def)
qed

lemma fl_round_log:
  "fl_round p emin x =
     (if x = 0 then 0
      else
        (let e = max emin \<lfloor>log 2 \<bar>x\<bar>\<rfloor>;
             q = pow2 (e - (int p - 1))
         in of_int (round_even (x / q)) * q))"
  by (simp add: fl_round_def binade_log)



lemma round_even_cases: "round_even r = \<lfloor>r\<rfloor> \<or> round_even r = \<lfloor>r\<rfloor> + 1"
  by (simp add: round_even_def Let_def)


lemma round_even_int: "round_even (of_int n) = n"
  by (simp add: round_even_def)

lemma round_even_mono_int: "of_int n \<le> r \<Longrightarrow> n \<le> round_even r"
proof -
  assume "of_int n \<le> r"
  then have "n \<le> \<lfloor>r\<rfloor>" by (simp add: le_floor_iff)
  then show ?thesis using round_even_cases [of r] by auto
qed


lemma fl_round_eval:
  assumes "pow2 e \<le> \<bar>x\<bar>" and "\<bar>x\<bar> < pow2 (e + 1)" and "emin \<le> e"
  shows "fl_round p emin x
           = of_int (round_even (x / pow2 (e - (int p - 1)))) * pow2 (e - (int p - 1))"
proof -
  have "x \<noteq> 0" using assms(1) pow2_pos [of e] by auto
  moreover have "max emin \<lfloor>log 2 \<bar>x\<bar>\<rfloor> = e"
    using floor_log2_eq [OF assms(1,2)] assms(3) by simp
  ultimately show ?thesis by (simp add: fl_round_log Let_def)
qed



lemma fl_round_nonneg: "0 \<le> x \<Longrightarrow> 0 \<le> fl_round p emin x"
proof -
  assume a: "0 \<le> x"
  have "0 \<le> of_int (round_even (x / q)) * q" if "0 < q" for q :: real
  proof -
    have "of_int 0 \<le> x / q" using a that by simp
    then have "0 \<le> round_even (x / q)" by (rule round_even_mono_int)
    then show ?thesis using that by simp
  qed
  then show ?thesis by (simp add: fl_round_log Let_def pow2_pos)
qed


section \<open>Properties of the noise functions\<close>

lemma cell_mod: "cell x = nat (\<lfloor>x\<rfloor> mod 256)"
proof -
  have "\<lfloor>x\<rfloor> AND 255 = take_bit 8 \<lfloor>x\<rfloor>" by (simp add: take_bit_eq_mask mask_eq_exp_minus_1)
  then show ?thesis by (simp add: cell_def take_bit_eq_mod)
qed

lemma and3_mod: "(h::nat) AND 3 = h mod 4"
proof -
  have "h AND 3 = take_bit 2 h" by (simp add: take_bit_eq_mask mask_eq_exp_minus_1)
  then show ?thesis by (simp add: take_bit_eq_mod)
qed

lemma grad2D_cases:
  "grad2D hash x y =
     (if hash mod 4 = 0 then x + y
      else if hash mod 4 = 1 then - x + y
      else if hash mod 4 = 2 then y - x
      else - y - x)"
proof -
  have "hash mod 4 = 0 \<or> hash mod 4 = 1 \<or> hash mod 4 = 2 \<or> hash mod 4 = 3" by presburger
  then show ?thesis
    by (elim disjE) (simp_all add: grad2D_def and3_mod Let_def)
qed

lemma grad2D_abs: "\<bar>grad2D hash x y\<bar> \<le> \<bar>x\<bar> + \<bar>y\<bar>"
  unfolding grad2D_cases by (auto simp: abs_if)

lemma grad2D_zero: "grad2D hash 0 0 = 0"
  by (simp add: grad2D_cases)

lemma fade_zero: "fade 0 = 0" by (simp add: fade_def)

lemma fade_sym: "fade (1 - t) = 1 - fade t"
  by (simp add: fade_def algebra_simps)

lemma fade_nonneg: assumes "0 \<le> t" shows "0 \<le> fade t"
proof -
  have "t * (t * 6 - 15) + 10 = 6 * (t - 5/4)^2 + 5/8"
    by (simp add: power2_eq_square algebra_simps)
  then have "0 \<le> t * (t * 6 - 15) + 10" by simp
  with assms show ?thesis unfolding fade_def by (intro mult_nonneg_nonneg) simp_all
qed

lemma fade_le_one: assumes "t \<le> 1" shows "fade t \<le> 1"
proof -
  have "0 \<le> fade (1 - t)" using assms by (intro fade_nonneg) simp
  then show ?thesis by (simp add: fade_sym)
qed

lemma fade_mix: "x + fade x * (1 - 2 * x) \<le> 1 / 2"
proof -
  define s where "s = x - 1/2"
  have x: "x = s + 1/2" by (simp add: s_def)
  have "1/2 - (x + fade x * (1 - 2 * x)) = 2 * s^2 * (6 * (s^2 - 5/12)^2 + 5/6)"
    unfolding x fade_def by (simp add: power2_eq_square algebra_simps)
  moreover have "0 \<le> 2 * s^2 * (6 * (s^2 - 5/12)^2 + 5/6)"
    by (intro mult_nonneg_nonneg add_nonneg_nonneg) simp_all
  ultimately show ?thesis by linarith
qed

lemma lerp_abs:
  assumes "0 \<le> t" "t \<le> 1" "\<bar>a\<bar> \<le> A" "\<bar>b\<bar> \<le> B"
  shows "\<bar>lerp a b t\<bar> \<le> lerp A B t"
proof -
  have e: "lerp a b t = (1 - t) * a + t * b" "lerp A B t = (1 - t) * A + t * B"
    by (simp_all add: lerp_def algebra_simps)
  have "\<bar>(1 - t) * a + t * b\<bar> \<le> \<bar>(1 - t) * a\<bar> + \<bar>t * b\<bar>" by (rule abs_triangle_ineq)
  also have "\<dots> = (1 - t) * \<bar>a\<bar> + t * \<bar>b\<bar>" using assms by (simp add: abs_mult)
  also have "\<dots> \<le> (1 - t) * A + t * B"
    using assms by (intro add_mono mult_left_mono) simp_all
  finally show ?thesis by (simp add: e)
qed

lemma frac_part_range: "0 \<le> frac_part x \<and> frac_part x < 1"
  unfolding frac_part_def by linarith

lemma noise_abs_le_one: "\<bar>noise t x0 y0\<bar> \<le> 1"
proof -
  define x where "x = frac_part x0"
  define y where "y = frac_part y0"
  define u where "u = fade x"
  define v where "v = fade y"
  have xr: "0 \<le> x" "x \<le> 1" and yr: "0 \<le> y" "y \<le> 1"
    using frac_part_range [of x0] frac_part_range [of y0] by (simp_all add: x_def y_def)
  have ur: "0 \<le> u" "u \<le> 1" and vr: "0 \<le> v" "v \<le> 1"
    using xr yr by (simp_all add: u_def v_def fade_nonneg fade_le_one)
  have g: "\<bar>grad2D h a b\<bar> \<le> \<bar>a\<bar> + \<bar>b\<bar>" for h a b by (rule grad2D_abs)
  have b1: "\<bar>lerp (grad2D h1 x y) (grad2D h2 (x - 1) y) u\<bar> \<le> lerp (x + y) ((1 - x) + y) u" for h1 h2
    using g [of h1 x y] g [of h2 "x - 1" y] xr yr by (intro lerp_abs ur) simp_all
  have b2: "\<bar>lerp (grad2D h1 x (y - 1)) (grad2D h2 (x - 1) (y - 1)) u\<bar>
               \<le> lerp (x + (1 - y)) ((1 - x) + (1 - y)) u" for h1 h2
    using g [of h1 x "y - 1"] g [of h2 "x - 1" "y - 1"] xr yr by (intro lerp_abs ur) simp_all
  have "\<bar>lerp (lerp (grad2D h1 x y) (grad2D h2 (x - 1) y) u)
              (lerp (grad2D h3 x (y - 1)) (grad2D h4 (x - 1) (y - 1)) u) v\<bar>
         \<le> lerp (lerp (x + y) ((1 - x) + y) u) (lerp (x + (1 - y)) ((1 - x) + (1 - y)) u) v"
    for h1 h2 h3 h4
    by (intro lerp_abs vr b1 b2)
  also have "lerp (lerp (x + y) ((1 - x) + y) u) (lerp (x + (1 - y)) ((1 - x) + (1 - y)) u) v
           = (x + u * (1 - 2 * x)) + (y + v * (1 - 2 * y))"
    by (simp add: lerp_def algebra_simps)
  also have "\<dots> \<le> 1"
    using fade_mix [of x] fade_mix [of y] by (simp add: u_def v_def)
  finally show ?thesis
    by (simp add: noise_def Let_def x_def y_def u_def v_def)
qed

lemma noise_lattice_zero: "noise t (of_int i) (of_int j) = 0"
  by (simp add: noise_def Let_def frac_part_def fade_zero lerp_def grad2D_zero)


section \<open>Properties of the permutation table and of fractal noise\<close>


lemma PlaneGeometry_flat: "v \<in> set (PlaneGeometry w h ws hs) \<Longrightarrow> vz v = 0"
  by (auto simp: PlaneGeometry_def Let_def vz_def)

text \<open>
  The loop of \<open>generateTerrain\<close> takes \<open>z\<close> from entry \<open>i + 2\<close> of the buffer and leaves
  that entry as it is. \<open>PlaneGeometry\<close> lays its grid out in the plane \<open>z = 0\<close>, so every
  vertex of the generated terrain has \<open>z = 0\<close> and its height is the one at \<open>(x, 0)\<close>.
\<close>

lemma generateTerrain_flat:
  assumes "terrain (generateTerrain t env) = Some vertices" and "v \<in> set vertices"
  shows "vz v = 0"
proof -
  have "vertices = map (generateTerrain_vertex t (config env))
          (PlaneGeometry (terrain_size (config env)) (terrain_size (config env))
             (terrain_segments (config env)) (terrain_segments (config env)))"
    using assms(1) by (simp add: generateTerrain_def Let_def)
  then obtain w where w: "v = generateTerrain_vertex t (config env) w"
      "w \<in> set (PlaneGeometry (terrain_size (config env)) (terrain_size (config env))
             (terrain_segments (config env)) (terrain_segments (config env)))"
    using assms(2) by auto
  have "vz v = vz w" by (simp add: w(1) generateTerrain_vertex_def Let_def vz_def)
  then show ?thesis using PlaneGeometry_flat [OF w(2)] by simp
qed

lemma valid_identity_table: "valid_table identity_table"
  by (simp add: valid_table_def identity_table_def noiseTableSize_def sorted_sort_id)

lemma valid_table_nth:
  assumes "valid_table t" "i < 2 * noiseTableSize"
  shows "t ! i < noiseTableSize"
proof -
  from assms have len: "length t = 2 * noiseTableSize"
    and dr: "drop noiseTableSize t = take noiseTableSize t"
    and so: "sort (take noiseTableSize t) = [0..<noiseTableSize]"
    by (simp_all add: valid_table_def)
  have "set (take noiseTableSize t) = set (sort (take noiseTableSize t))" by simp
  also have "\<dots> = {0..<noiseTableSize}" by (simp only: so set_upt)
  finally have st: "set (take noiseTableSize t) = {0..<noiseTableSize}" .
  have low: "take noiseTableSize t ! j < noiseTableSize" if "j < noiseTableSize" for j
  proof -
    have "take noiseTableSize t ! j \<in> set (take noiseTableSize t)"
      using that len by (intro nth_mem) simp
    then show ?thesis by (simp add: st)
  qed
  show ?thesis
  proof (cases "i < noiseTableSize")
    case True
    then show ?thesis using low [of i] by simp
  next
    case False
    then have "t ! i = drop noiseTableSize t ! (i - noiseTableSize)"
      using len assms(2) by simp
    also have "\<dots> = take noiseTableSize t ! (i - noiseTableSize)" by (simp only: dr)
    finally show ?thesis using low [of "i - noiseTableSize"] assms(2) False by simp
  qed
qed

lemma cell_less: "cell x < noiseTableSize"
  by (simp add: cell_mod noiseTableSize_def nat_less_iff)

text \<open>Every table index that \<open>noise\<close> reads lies inside a valid table.\<close>

lemma noise_indices_in_range:
  fixes x y :: real
  assumes "valid_table t"
  defines "A \<equiv> t ! cell x + cell y" and "B \<equiv> t ! (cell x + 1) + cell y"
  shows "cell x + 1 < length t \<and> A + 1 < length t \<and> B + 1 < length t
         \<and> t ! A < length t \<and> t ! (A + 1) < length t \<and> t ! B < length t \<and> t ! (B + 1) < length t"
proof -
  have len: "length t = 2 * noiseTableSize" using assms(1) by (simp add: valid_table_def)
  have n: "i < 2 * noiseTableSize \<Longrightarrow> t ! i < noiseTableSize" for i
    using valid_table_nth [OF assms(1)] by simp
  have cx: "cell x < noiseTableSize" and cy: "cell y < noiseTableSize" by (rule cell_less)+
  have a: "A + 1 < 2 * noiseTableSize" using n [of "cell x"] cx cy by (simp add: A_def)
  have b: "B + 1 < 2 * noiseTableSize" using n [of "cell x + 1"] cx cy by (simp add: B_def)
  show ?thesis using a b cx n [of A] n [of "A + 1"] n [of B] n [of "B + 1"] by (simp add: len)
qed

lemma fractalNoise_loop_sum:
  "fractalNoise_loop t x y p n tot f amp mv =
     (tot + (\<Sum>i<n. noise t (x * (f * 2 ^ i)) (y * (f * 2 ^ i)) * (amp * p ^ i)),
      mv + (\<Sum>i<n. amp * p ^ i))"
proof (induction n arbitrary: tot f amp mv)
  case 0
  then show ?case by simp
next
  case (Suc n)
  show ?case
    by (simp add: Suc.IH sum.lessThan_Suc_shift ac_simps del: sum.lessThan_Suc)
qed

lemma fractalNoise_closed:
  "fractalNoise t x y octaves p =
     (\<Sum>i<octaves. noise t (x * 2 ^ i) (y * 2 ^ i) * p ^ i) / (\<Sum>i<octaves. p ^ i)"
  by (simp add: fractalNoise_def fractalNoise_loop_sum)


lemma fractalNoise_abs:
  assumes nb: "\<forall>a b. \<bar>noise t a b\<bar> \<le> 1" and oc: "1 \<le> octaves" and p: "0 < p"
  shows "\<bar>fractalNoise t x y octaves p\<bar> \<le> 1"
proof -
  let ?S = "\<Sum>i<octaves. p ^ i"
  let ?T = "\<Sum>i<octaves. noise t (x * 2 ^ i) (y * 2 ^ i) * p ^ i"
  have "0 \<in> {..<octaves}" using oc by simp
  then have "p ^ 0 \<le> ?S"
    using p by (intro member_le_sum) simp_all
  then have S: "0 < ?S" by simp
  have "\<bar>?T\<bar> \<le> (\<Sum>i<octaves. \<bar>noise t (x * 2 ^ i) (y * 2 ^ i) * p ^ i\<bar>)"
    by (rule sum_abs)
  also have "\<dots> \<le> ?S"
  proof (rule sum_mono)
    fix i
    have "\<bar>noise t (x * 2 ^ i) (y * 2 ^ i)\<bar> * p ^ i \<le> 1 * p ^ i"
      using nb p by (intro mult_right_mono) simp_all
    then show "\<bar>noise t (x * 2 ^ i) (y * 2 ^ i) * p ^ i\<bar> \<le> p ^ i"
      using p by (simp add: abs_mult)
  qed
  finally have "\<bar>?T\<bar> \<le> ?S" .
  then have "\<bar>?T / ?S\<bar> \<le> 1" using S by (simp add: abs_if field_simps split: if_splits)
  then show ?thesis by (simp add: fractalNoise_closed)
qed


section \<open>Properties of tree placement\<close>

lemma distanceTo_sym: "distanceTo p q = distanceTo q p"
  by (simp add: distanceTo_def power2_commute)

lemma isValidTreePosition_iff:
  "isValidTreePosition p ps d \<longleftrightarrow> (\<forall>q \<in> set ps. d \<le> distanceTo p q)"
  by (induction ps) auto

lemma apart_Nil: "apart d []"
  by (simp add: apart_def)

lemma apart_snoc:
  assumes "apart d ps" and "\<forall>q \<in> set ps. d \<le> distanceTo p q"
  shows "apart d (ps @ [p])"
  unfolding apart_def
proof (intro allI impI)
  fix i j
  assume i: "i < length (ps @ [p])" and j: "j < length (ps @ [p])" and ne: "i \<noteq> j"
  consider "i < length ps" "j < length ps" | "i < length ps" "j = length ps"
    | "i = length ps" "j < length ps"
    using i j ne by fastforce
  then show "d \<le> distanceTo ((ps @ [p]) ! i) ((ps @ [p]) ! j)"
  proof cases
    case 1
    then show ?thesis using assms(1) ne by (simp add: apart_def nth_append)
  next
    case 2
    then have "d \<le> distanceTo p (ps ! i)" using assms(2) by simp
    then show ?thesis using 2 by (simp add: nth_append distanceTo_sym)
  next
    case 3
    then have "d \<le> distanceTo p (ps ! j)" using assms(2) by simp
    then show ?thesis using 3 by (simp add: nth_append)
  qed
qed

lemma find_position_unfold:
  "find_position cand c placed a k =
     (if a + 1 < maxAttempts
         \<and> \<not> isValidTreePosition (getRandomTerrainPosition (trees_maxDistance c) (cand k)) placed
               (trees_minDistance c)
      then find_position cand c placed (a + 1) (k + 1)
      else (getRandomTerrainPosition (trees_maxDistance c) (cand k), a + 1, k + 1))"
  by (subst find_position.simps) (simp add: Let_def)

lemma find_position_spec:
  assumes "find_position cand c placed a k = (pos, a', k')"
  shows "a < a' \<and> (a < maxAttempts \<longrightarrow> a' \<le> maxAttempts) \<and> k' = k + (a' - a)
         \<and> pos = getRandomTerrainPosition (trees_maxDistance c) (cand (k' - 1))
         \<and> (a' < maxAttempts \<longrightarrow> isValidTreePosition pos placed (trees_minDistance c))"
  using assms
proof (induction cand c placed a k rule: find_position.induct)
  case (1 cand c placed a k)
  let ?p = "getRandomTerrainPosition (trees_maxDistance c) (cand k)"
  define C where "C \<longleftrightarrow> a + 1 < maxAttempts \<and> \<not> isValidTreePosition ?p placed (trees_minDistance c)"
  have eq: "find_position cand c placed a k =
      (if C then find_position cand c placed (a + 1) (k + 1) else (?p, a + 1, k + 1))"
    unfolding C_def by (rule find_position_unfold)
  show ?case
  proof (cases C)
    case True
    then have r: "find_position cand c placed (a + 1) (k + 1) = (pos, a', k')"
      using "1.prems" eq by simp
    have "a + 1 < a' \<and> (a + 1 < maxAttempts \<longrightarrow> a' \<le> maxAttempts) \<and> k' = k + 1 + (a' - (a + 1))
         \<and> pos = getRandomTerrainPosition (trees_maxDistance c) (cand (k' - 1))
         \<and> (a' < maxAttempts \<longrightarrow> isValidTreePosition pos placed (trees_minDistance c))"
      using True by (intro "1.IH" [OF refl refl _ r]) (simp add: C_def)
    then show ?thesis using True by (auto simp: C_def)
  next
    case False
    then have "(pos, a', k') = (?p, a + 1, k + 1)"
      using "1.prems" eq by simp
    then show ?thesis using False by (auto simp: C_def)
  qed
qed


lemma cos_sin_scaled: "(cos a * d)\<^sup>2 + (sin a * d)\<^sup>2 = (d::real)\<^sup>2"
proof -
  have "(cos a * d)\<^sup>2 + (sin a * d)\<^sup>2 = ((cos a)\<^sup>2 + (sin a)\<^sup>2) * d\<^sup>2"
    by (simp only: power_mult_distrib distrib_right)
  then show ?thesis by simp
qed

lemma getRandomTerrainPosition_in_disk:
  assumes "unit_draws r"
  shows "in_disk maxDistance (getRandomTerrainPosition maxDistance r)"
proof -
  have r: "0 \<le> r 1" "r 1 < 1" using assms by (simp_all add: unit_draws_def)
  then have "(r 1)\<^sup>2 \<le> 1" by (simp add: power_le_one)
  then have "(r 1)\<^sup>2 * maxDistance\<^sup>2 \<le> 1 * maxDistance\<^sup>2"
    by (intro mult_right_mono) simp_all
  then have "(r 1 * maxDistance)\<^sup>2 \<le> maxDistance\<^sup>2"
    by (simp add: power_mult_distrib)
  then show ?thesis
    by (simp add: in_disk_def getRandomTerrainPosition_def Let_def vx_def vy_def vz_def
        cos_sin_scaled)
qed


lemma square_cell_close:
  assumes "square_cell a = square_cell b" "\<bar>a\<bar> \<le> 15" "\<bar>b\<bar> \<le> 15"
  shows "\<bar>a - b\<bar> \<le> 10"
proof -
  consider "a < - 5" | "- 5 \<le> a" "a < 5" | "5 \<le> a" by linarith
  then show ?thesis
  proof cases
    case 1
    then have "b < - 5" using assms(1) by (simp add: square_cell_def split: if_splits)
    then show ?thesis using 1 assms(2,3) by linarith
  next
    case 2
    then have "- 5 \<le> b \<and> b < 5" using assms(1) by (simp add: square_cell_def split: if_splits)
    then show ?thesis using 2 by linarith
  next
    case 3
    then have "5 \<le> b" using assms(1) by (simp add: square_cell_def split: if_splits)
    then show ?thesis using 3 assms(2,3) by linarith
  qed
qed

lemma square_cell_range: "square_cell x \<in> {0, 1, 2}"
  by (simp add: square_cell_def)

lemma in_disk_bounds:
  assumes "in_disk 15 p"
  shows "\<bar>vx p\<bar> \<le> 15 \<and> \<bar>vz p\<bar> \<le> 15 \<and> vy p = 0"
proof -
  have s: "(vx p)\<^sup>2 + (vz p)\<^sup>2 \<le> 15\<^sup>2" and y: "vy p = 0"
    using assms by (simp_all add: in_disk_def)
  have "(vx p)\<^sup>2 \<le> 15\<^sup>2" "(vz p)\<^sup>2 \<le> 15\<^sup>2"
    using s zero_le_power2 [of "vx p"] zero_le_power2 [of "vz p"] by linarith+
  then have "\<bar>vx p\<bar> \<le> \<bar>15\<bar>" "\<bar>vz p\<bar> \<le> \<bar>15\<bar>"
    by (simp_all only: abs_le_square_iff)
  then show ?thesis using y by simp
qed

lemma same_cell_near:
  assumes "in_disk 15 p" "in_disk 15 q"
    and "square_cell (vx p) = square_cell (vx q)" "square_cell (vz p) = square_cell (vz q)"
  shows "distanceTo p q < 20"
proof -
  have "\<bar>vx p - vx q\<bar> \<le> 10" "\<bar>vz p - vz q\<bar> \<le> 10"
    using assms in_disk_bounds [of p] in_disk_bounds [of q]
    by (simp_all add: square_cell_close)
  then have "\<bar>vx p - vx q\<bar> \<le> \<bar>10\<bar>" "\<bar>vz p - vz q\<bar> \<le> \<bar>10\<bar>" by simp_all
  then have "(vx p - vx q)\<^sup>2 \<le> 10\<^sup>2" "(vz p - vz q)\<^sup>2 \<le> 10\<^sup>2"
    by (simp_all only: abs_le_square_iff)
  moreover have "vy p - vy q = 0"
    using in_disk_bounds [OF assms(1)] in_disk_bounds [OF assms(2)] by simp
  ultimately have "(vx p - vx q)\<^sup>2 + (vy p - vy q)\<^sup>2 + (vz p - vz q)\<^sup>2 < 20\<^sup>2"
    by simp
  then show ?thesis
    unfolding distanceTo_def by (intro real_less_lsqrt) simp_all
qed

lemma infeasible_example: "\<not> feasible 10 20 15"
proof
  assume "feasible 10 20 15"
  then obtain ps where len: "length ps = 10" and disk: "\<forall>p \<in> set ps. in_disk 15 p"
    and ap: "apart 20 ps"
    unfolding feasible_def by blast
  define f where "f i = (square_cell (vx (ps ! i)), square_cell (vz (ps ! i)))" for i
  have "f i \<in> {0, 1, 2} \<times> {0, 1, 2}" for i
    unfolding f_def using square_cell_range by blast
  then have "f ` {..<10} \<subseteq> {0, 1, 2} \<times> {0, 1, 2}" by blast
  then have "card (f ` {..<10}) \<le> card ({0, 1, 2 :: nat} \<times> {0, 1, 2 :: nat})"
    by (intro card_mono) simp_all
  also have "\<dots> = 9" by (simp add: card_cartesian_product)
  finally have "card (f ` {..<10}) < card {..<10::nat}" by simp
  then have "\<not> inj_on f {..<10}" by (rule pigeonhole)
  then obtain i j where ij: "i < 10" "j < 10" "i \<noteq> j" "f i = f j"
    unfolding inj_on_def by auto
  have "in_disk 15 (ps ! i)" "in_disk 15 (ps ! j)" using disk ij len by simp_all
  moreover have "square_cell (vx (ps ! i)) = square_cell (vx (ps ! j))"
    "square_cell (vz (ps ! i)) = square_cell (vz (ps ! j))"
    using ij(4) by (simp_all add: f_def)
  ultimately have "distanceTo (ps ! i) (ps ! j) < 20" by (rule same_cell_near)
  moreover have "20 \<le> distanceTo (ps ! i) (ps ! j)"
    using ap ij len by (simp add: apart_def)
  ultimately show False by simp
qed

lemma placement_inv_step:
  assumes "placement_inv cand env n st"
  shows "placement_inv cand env (Suc n) (placeTrees_step cand tr i st)"
proof -
  let ?c = "config env"
  obtain pos a' k' where fp: "find_position cand ?c (placedPositions st) 0 (drawn st) = (pos, a', k')"
    by (cases "find_position cand ?c (placedPositions st) 0 (drawn st)") auto
  from find_position_spec [OF fp]
  have a: "0 < a'" "a' \<le> maxAttempts" "k' = drawn st + a'"
    and pos: "pos = getRandomTerrainPosition (trees_maxDistance ?c) (cand (k' - 1))"
    and valid: "a' < maxAttempts \<longrightarrow> isValidTreePosition pos (placedPositions st) (trees_minDistance ?c)"
    by (auto simp: maxAttempts_def)
  have cfg: "config (p_env st) = ?c" using assms by (simp add: placement_inv_def)
  have k: "k' \<le> Suc n * maxAttempts"
    using a assms by (simp add: placement_inv_def)
  show ?thesis
  proof (cases "a' \<ge> maxAttempts")
    case True
    then have "placeTrees_step cand tr i st = st\<lparr>drawn := k'\<rparr>"
      by (simp add: placeTrees_step_def cfg fp Let_def)
    then show ?thesis using assms k by (simp add: placement_inv_def)
  next
    case False
    then have eq: "placeTrees_step cand tr i st =
        st\<lparr> p_env := (p_env st)\<lparr>trees := trees (p_env st) @ [createTree ?c pos (tr i)]\<rparr>,
            placedPositions := placedPositions st @ [pos], drawn := k' \<rparr>"
      by (simp add: placeTrees_step_def cfg fp Let_def)
    have "\<forall>q \<in> set (placedPositions st). trees_minDistance ?c \<le> distanceTo pos q"
      using valid False by (simp add: isValidTreePosition_iff)
    then have ap: "apart (trees_minDistance ?c) (placedPositions st @ [pos])"
      using assms by (intro apart_snoc) (simp add: placement_inv_def)
    have tp: "tree_position (createTree ?c pos (tr i)) = pos"
      by (simp add: createTree_def Let_def)
    show ?thesis
      unfolding eq using assms k ap pos tp by (auto simp: placement_inv_def)
  qed
qed

lemma placement_inv_fold:
  "placement_inv cand env n
     (fold (placeTrees_step cand tr) [0..<n] \<lparr> p_env = env, placedPositions = [], drawn = 0 \<rparr>)"
proof (induction n)
  case 0
  show ?case by (simp add: placement_inv_def apart_Nil)
next
  case (Suc n)
  then show ?case by (simp add: placement_inv_step)
qed

lemma placement_inv_run:
  "placement_inv cand env (trees_count (config env)) (placeTrees_run cand tr env)"
  unfolding placeTrees_run_def by (rule placement_inv_fold)

section \<open>Properties of the generation loops\<close>

lemma fold_upt_invariant:
  assumes "P s" and "\<And>i s. P s \<Longrightarrow> P (f i s)"
  shows "P (fold f [0..<n] s)"
  by (induction n) (simp_all add: assms)

lemma fold_upt_count:
  assumes "\<And>i s. g (f i s) = Suc (g s)"
  shows "g (fold f [0..<n] s) = g s + n"
  by (induction n) (simp_all add: assms)

lemma getTerrainHeightAt_cong:
  assumes "config e = config env" "terrain e = terrain env"
  shows "getTerrainHeightAt t e = getTerrainHeightAt t env"
  by (rule ext)+ (simp add: getTerrainHeightAt_def assms)

lemma on_ground_cong:
  assumes "config e = config env" "terrain e = terrain env"
  shows "on_ground t e = on_ground t env"
  by (rule ext)+ (simp add: on_ground_def getTerrainHeightAt_cong [OF assms])

text \<open>Grass.\<close>

lemma createGrassPatch_on_ground:
  "b \<in> set (createGrassPatch t env position r) \<Longrightarrow> on_ground t env 0 (blade_position b)"
  by (auto simp: createGrassPatch_def Let_def on_ground_def vx_def vy_def vz_def)

lemma length_createGrassPatch:
  "length (createGrassPatch t env position r) = grass_bladesPerPatch (config env)"
  by (simp add: createGrassPatch_def Let_def)

lemma createGrassPatches_step_props:
  "same_ground (createGrassPatches_step t rs i e) e"
  "trees (createGrassPatches_step t rs i e) = trees e"
  "flowers (createGrassPatches_step t rs i e) = flowers e"
  "rocks (createGrassPatches_step t rs i e) = rocks e"
  "length (grassPatches (createGrassPatches_step t rs i e)) = Suc (length (grassPatches e))"
  by (simp_all add: createGrassPatches_step_def Let_def same_ground_def)


lemma same_ground_refl: "same_ground e e"
  by (simp add: same_ground_def)

lemma on_ground_same:
  "same_ground e env \<Longrightarrow> on_ground t e = on_ground t env"
  unfolding same_ground_def by (rule on_ground_cong) simp_all

lemma grounded_step_grass:
  assumes "grounded_env t e"
  shows "grounded_env t (createGrassPatches_step t rs i e)"
proof -
  let ?e = "createGrassPatches_step t rs i e"
  have g: "on_ground t ?e = on_ground t e"
    by (rule on_ground_same) (rule createGrassPatches_step_props)
  have "grassPatches ?e = grassPatches e
          @ [createGrassPatch t e (getRandomTerrainPosition (grass_maxDistance (config e)) (rs i))
               (\<lambda>j. rs i (j + 2))]"
    by (simp add: createGrassPatches_step_def Let_def)
  then show ?thesis
    using assms createGrassPatch_on_ground
    by (auto simp: grounded_env_def g createGrassPatches_step_props)
qed

lemma createGrassPatches_props:
  "same_ground (createGrassPatches t rs e) e"
  "trees (createGrassPatches t rs e) = trees e"
  "flowers (createGrassPatches t rs e) = flowers e"
  "rocks (createGrassPatches t rs e) = rocks e"
  "length (grassPatches (createGrassPatches t rs e))
     = length (grassPatches e) + grass_patchCount (config e)"
  "grounded_env t e \<Longrightarrow> grounded_env t (createGrassPatches t rs e)"
proof -
  let ?P = "\<lambda>s. same_ground s e \<and> trees s = trees e \<and> flowers s = flowers e \<and> rocks s = rocks e"
  have "?P (fold (createGrassPatches_step t rs) [0..<n] e)" for n
    by (rule fold_upt_invariant [where P = ?P])
       (simp_all add: same_ground_def createGrassPatches_step_def Let_def)
  then show "same_ground (createGrassPatches t rs e) e"
    "trees (createGrassPatches t rs e) = trees e"
    "flowers (createGrassPatches t rs e) = flowers e"
    "rocks (createGrassPatches t rs e) = rocks e"
    by (simp_all add: createGrassPatches_def)
  show "length (grassPatches (createGrassPatches t rs e))
     = length (grassPatches e) + grass_patchCount (config e)"
    unfolding createGrassPatches_def
    by (rule fold_upt_count [where g = "\<lambda>s. length (grassPatches s)"]) (rule createGrassPatches_step_props)
  show "grounded_env t (createGrassPatches t rs e)" if "grounded_env t e"
    unfolding createGrassPatches_def
    using that by (rule fold_upt_invariant [where P = "grounded_env t"]) (rule grounded_step_grass)
qed

text \<open>Flowers.\<close>

lemma createFlower_raised:
  "on_ground t env (1 / 10) (flower_position (createFlower t env position r))"
  by (simp add: createFlower_def Let_def on_ground_def vx_def vy_def vz_def)

lemma placeFlowers_step_props:
  "same_ground (placeFlowers_step t rs i e) e"
  "trees (placeFlowers_step t rs i e) = trees e"
  "grassPatches (placeFlowers_step t rs i e) = grassPatches e"
  "rocks (placeFlowers_step t rs i e) = rocks e"
  "length (flowers (placeFlowers_step t rs i e)) = Suc (length (flowers e))"
  by (simp_all add: placeFlowers_step_def Let_def same_ground_def)

lemma grounded_step_flower:
  assumes "grounded_env t e"
  shows "grounded_env t (placeFlowers_step t rs i e)"
proof -
  let ?e = "placeFlowers_step t rs i e"
  have g: "on_ground t ?e = on_ground t e"
    by (rule on_ground_same) (rule placeFlowers_step_props)
  have "flowers ?e = flowers e
          @ [createFlower t e (getRandomTerrainPosition (flowers_maxDistance (config e)) (rs i))
               (\<lambda>j. rs i (j + 2))]"
    by (simp add: placeFlowers_step_def Let_def)
  then show ?thesis
    using assms createFlower_raised
    by (auto simp: grounded_env_def g placeFlowers_step_props)
qed

lemma placeFlowers_props:
  "same_ground (placeFlowers t rs e) e"
  "trees (placeFlowers t rs e) = trees e"
  "grassPatches (placeFlowers t rs e) = grassPatches e"
  "rocks (placeFlowers t rs e) = rocks e"
  "length (flowers (placeFlowers t rs e)) = length (flowers e) + flowers_count (config e)"
  "grounded_env t e \<Longrightarrow> grounded_env t (placeFlowers t rs e)"
proof -
  let ?P = "\<lambda>s. same_ground s e \<and> trees s = trees e \<and> grassPatches s = grassPatches e
                \<and> rocks s = rocks e"
  have "?P (fold (placeFlowers_step t rs) [0..<n] e)" for n
    by (rule fold_upt_invariant [where P = ?P])
       (simp_all add: same_ground_def placeFlowers_step_def Let_def)
  then show "same_ground (placeFlowers t rs e) e"
    "trees (placeFlowers t rs e) = trees e"
    "grassPatches (placeFlowers t rs e) = grassPatches e"
    "rocks (placeFlowers t rs e) = rocks e"
    by (simp_all add: placeFlowers_def)
  show "length (flowers (placeFlowers t rs e)) = length (flowers e) + flowers_count (config e)"
    unfolding placeFlowers_def
    by (rule fold_upt_count [where g = "\<lambda>s. length (flowers s)"]) (rule placeFlowers_step_props)
  show "grounded_env t (placeFlowers t rs e)" if "grounded_env t e"
    unfolding placeFlowers_def
    using that by (rule fold_upt_invariant [where P = "grounded_env t"]) (rule grounded_step_flower)
qed

text \<open>Rocks.\<close>

lemma createRock_on_ground:
  "on_ground t env 0 (rock_position (createRock t env position r))"
  by (simp add: createRock_def Let_def on_ground_def vx_def vy_def vz_def)

lemma placeRocks_step_props:
  "same_ground (placeRocks_step t rs i e) e"
  "trees (placeRocks_step t rs i e) = trees e"
  "grassPatches (placeRocks_step t rs i e) = grassPatches e"
  "flowers (placeRocks_step t rs i e) = flowers e"
  "length (rocks (placeRocks_step t rs i e)) = Suc (length (rocks e))"
  by (simp_all add: placeRocks_step_def Let_def same_ground_def)

lemma grounded_step_rock:
  assumes "grounded_env t e"
  shows "grounded_env t (placeRocks_step t rs i e)"
proof -
  let ?e = "placeRocks_step t rs i e"
  have g: "on_ground t ?e = on_ground t e"
    by (rule on_ground_same) (rule placeRocks_step_props)
  have "rocks ?e = rocks e
          @ [createRock t e (getRandomTerrainPosition (rocks_maxDistance (config e)) (rs i))
               (\<lambda>j. rs i (j + 2))]"
    by (simp add: placeRocks_step_def Let_def)
  then show ?thesis
    using assms createRock_on_ground
    by (auto simp: grounded_env_def g placeRocks_step_props)
qed

lemma placeRocks_props:
  "same_ground (placeRocks t rs e) e"
  "trees (placeRocks t rs e) = trees e"
  "grassPatches (placeRocks t rs e) = grassPatches e"
  "flowers (placeRocks t rs e) = flowers e"
  "length (rocks (placeRocks t rs e)) = length (rocks e) + rocks_count (config e)"
  "grounded_env t e \<Longrightarrow> grounded_env t (placeRocks t rs e)"
proof -
  let ?P = "\<lambda>s. same_ground s e \<and> trees s = trees e \<and> grassPatches s = grassPatches e
                \<and> flowers s = flowers e"
  have "?P (fold (placeRocks_step t rs) [0..<n] e)" for n
    by (rule fold_upt_invariant [where P = ?P])
       (simp_all add: same_ground_def placeRocks_step_def Let_def)
  then show "same_ground (placeRocks t rs e) e"
    "trees (placeRocks t rs e) = trees e"
    "grassPatches (placeRocks t rs e) = grassPatches e"
    "flowers (placeRocks t rs e) = flowers e"
    by (simp_all add: placeRocks_def)
  show "length (rocks (placeRocks t rs e)) = length (rocks e) + rocks_count (config e)"
    unfolding placeRocks_def
    by (rule fold_upt_count [where g = "\<lambda>s. length (rocks s)"]) (rule placeRocks_step_props)
  show "grounded_env t (placeRocks t rs e)" if "grounded_env t e"
    unfolding placeRocks_def
    using that by (rule fold_upt_invariant [where P = "grounded_env t"]) (rule grounded_step_rock)
qed

text \<open>Trees and the whole of \<open>init\<close>.\<close>

lemma placeTrees_props:
  "same_ground (placeTrees cand tr e) e"
  "grassPatches (placeTrees cand tr e) = grassPatches e"
  "flowers (placeTrees cand tr e) = flowers e"
  "rocks (placeTrees cand tr e) = rocks e"
  "grounded_env t e \<Longrightarrow> grounded_env t (placeTrees cand tr e)"
proof -
  have i: "placement_inv cand e (trees_count (config e)) (placeTrees_run cand tr e)"
    by (rule placement_inv_run)
  then show sg: "same_ground (placeTrees cand tr e) e"
    and gp: "grassPatches (placeTrees cand tr e) = grassPatches e"
    and fl: "flowers (placeTrees cand tr e) = flowers e"
    and ro: "rocks (placeTrees cand tr e) = rocks e"
    by (simp_all add: placement_inv_def placeTrees_def same_ground_def)
  show "grounded_env t (placeTrees cand tr e)" if "grounded_env t e"
    using that by (simp add: grounded_env_def gp fl ro on_ground_same [OF sg])
qed

lemma generateTerrain_props:
  "config (generateTerrain t e) = config e"
  "trees (generateTerrain t e) = trees e"
  "grassPatches (generateTerrain t e) = grassPatches e"
  "flowers (generateTerrain t e) = flowers e"
  "rocks (generateTerrain t e) = rocks e"
  "terrain (generateTerrain t e) \<noteq> None"
  by (simp_all add: generateTerrain_def Let_def)

lemma distanceTo_less_iff:
  assumes "0 \<le> d"
  shows "distanceTo p q < d \<longleftrightarrow> (vx p - vx q)\<^sup>2 + (vy p - vy q)\<^sup>2 + (vz p - vz q)\<^sup>2 < d\<^sup>2"
proof -
  let ?s = "(vx p - vx q)\<^sup>2 + (vy p - vy q)\<^sup>2 + (vz p - vz q)\<^sup>2"
  have "sqrt ?s < d \<longleftrightarrow> sqrt ?s < sqrt (d\<^sup>2)" using assms by simp
  also have "\<dots> \<longleftrightarrow> ?s < d\<^sup>2" by (rule real_sqrt_less_iff)
  finally show ?thesis by (simp add: distanceTo_def)
qed

lemma two_tree_run:
  "placedPositions (placeTrees_run two_tree_candidates tr (new_environment two_tree_config))
     = [(0, 0, 0), (40, 0, 0)]"
proof -
  have u: "[0..<2] = [0, 1]" by (simp add: upt_rec)
  have c: "trees_count two_tree_config = 2" "trees_maxDistance two_tree_config = 80"
    "trees_minDistance two_tree_config = 8"
    by (simp_all add: two_tree_config_def default_config_def)
  have p0: "getRandomTerrainPosition 80 (two_tree_candidates 0) = (0, 0, 0)"
    and p1: "getRandomTerrainPosition 80 (two_tree_candidates (Suc 0)) = (40, 0, 0)"
    by (simp_all add: getRandomTerrainPosition_def two_tree_candidates_def Let_def)
  have f0: "find_position two_tree_candidates two_tree_config [] 0 0 = ((0, 0, 0), 1, 1)"
    by (subst find_position_unfold) (simp add: c p0)
  have f1: "find_position two_tree_candidates two_tree_config [(0, 0, 0)] 0 (Suc 0)
              = ((40, 0, 0), 1, 2)"
    by (subst find_position_unfold)
       (simp add: c p1 distanceTo_less_iff vx_def vy_def vz_def)
  show ?thesis
    by (simp add: placeTrees_run_def new_environment_def c u placeTrees_step_def f0 f1
        maxAttempts_def Let_def)
qed

lemma placed_in_disk:
  assumes "\<forall>k. unit_draws (cand k)"
    and "placement_inv cand env n st"
  shows "\<forall>p \<in> set (placedPositions st). in_disk (trees_maxDistance (config env)) p"
  using assms getRandomTerrainPosition_in_disk by (auto simp: placement_inv_def)

lemma init_props:
  "trees (init t d env)
     = trees (placeTrees (tree_candidates d) (tree_draws d) (generateTerrain t env))"
  "length (grassPatches (init t d env)) = length (grassPatches env) + grass_patchCount (config env)"
  "length (flowers (init t d env)) = length (flowers env) + flowers_count (config env)"
  "length (rocks (init t d env)) = length (rocks env) + rocks_count (config env)"
  "same_ground (init t d env) (generateTerrain t env)"
proof -
  let ?e1 = "generateTerrain t env"
  let ?e2 = "placeTrees (tree_candidates d) (tree_draws d) ?e1"
  let ?e3 = "createGrassPatches t (grass_draws d) ?e2"
  let ?e4 = "placeFlowers t (flower_draws d) ?e3"
  let ?e5 = "placeRocks t (rock_draws d) ?e4"
  have i: "init t d env = ?e5" by (simp add: init_def placeVegetation_def Let_def)
  have c2: "config ?e2 = config env" and t2: "terrain ?e2 = terrain ?e1"
    using placeTrees_props(1) [of "tree_candidates d" "tree_draws d" ?e1]
    by (simp_all add: same_ground_def generateTerrain_props)
  have c3: "config ?e3 = config env" and t3: "terrain ?e3 = terrain ?e1"
    using createGrassPatches_props(1) [of t "grass_draws d" ?e2] c2 t2
    by (simp_all add: same_ground_def)
  have c4: "config ?e4 = config env" and t4: "terrain ?e4 = terrain ?e1"
    using placeFlowers_props(1) [of t "flower_draws d" ?e3] c3 t3
    by (simp_all add: same_ground_def)
  have c5: "config ?e5 = config env" and t5: "terrain ?e5 = terrain ?e1"
    using placeRocks_props(1) [of t "rock_draws d" ?e4] c4 t4
    by (simp_all add: same_ground_def)
  show "trees (init t d env) = trees ?e2"
    by (simp add: i placeRocks_props placeFlowers_props createGrassPatches_props)
  show "length (grassPatches (init t d env)) = length (grassPatches env) + grass_patchCount (config env)"
    by (simp add: i placeRocks_props placeFlowers_props createGrassPatches_props
        placeTrees_props generateTerrain_props c2)
  show "length (flowers (init t d env)) = length (flowers env) + flowers_count (config env)"
    by (simp add: i placeRocks_props placeFlowers_props createGrassPatches_props
        placeTrees_props generateTerrain_props c3)
  show "length (rocks (init t d env)) = length (rocks env) + rocks_count (config env)"
    by (simp add: i placeRocks_props placeFlowers_props createGrassPatches_props
        placeTrees_props generateTerrain_props c4)
  show "same_ground (init t d env) ?e1"
    by (simp add: i same_ground_def c5 t5 generateTerrain_props)
qed

lemma identity_table_nth:
  "i < 256 \<Longrightarrow> identity_table ! i = i"
  "i < 256 \<Longrightarrow> identity_table ! (256 + i) = i"
  by (simp_all add: identity_table_def noiseTableSize_def nth_append)

lemma noise_identity_half: "noise identity_table (1 / 2) 0 = 1 / 2"
proof -
  have c: "cell (1 / 2) = 0" "cell 0 = 0" by (simp_all add: cell_def)
  have f: "frac_part (1 / 2) = 1 / 2" "frac_part 0 = 0" by (simp_all add: frac_part_def)
  have t: "identity_table ! 0 = 0" "identity_table ! Suc 0 = Suc 0"
    using identity_table_nth(1) [of 0] identity_table_nth(1) [of "Suc 0"]
    by simp_all
  show ?thesis
    by (simp add: noise_def Let_def c f t grad2D_cases lerp_def fade_def)
qed

lemma generated_default_props:
  "config generated_default = default_config" "terrain generated_default \<noteq> None"
  by (simp_all add: generated_default_def generateTerrain_props new_environment_def)

lemma height_default_10: "getTerrainHeightAt identity_table generated_default 10 0 = 4"
proof -
  have "noise identity_table 1 0 = 0" "noise identity_table 2 0 = 0"
    using noise_lattice_zero [of identity_table 1 0] noise_lattice_zero [of identity_table 2 0]
    by simp_all
  then show ?thesis
    by (simp add: getTerrainHeightAt_def generated_default_props Let_def default_config_def
        noise_identity_half)
qed

lemma height_default_0: "getTerrainHeightAt identity_table generated_default 0 0 = 0"
  using noise_lattice_zero [of identity_table 0 0]
  by (simp add: getTerrainHeightAt_def Let_def)

lemma fround_zero: "fround 0 = 0"
  by (simp add: fround_def fl_round_def)








lemma grounded_init: "grounded_env t (init t d (new_environment c))"
proof -
  have "grounded_env t (generateTerrain t (new_environment c))"
    by (simp add: grounded_env_def generateTerrain_props new_environment_def)
  then show ?thesis
    by (simp add: init_def placeVegetation_def Let_def placeTrees_props createGrassPatches_props
        placeFlowers_props placeRocks_props)
qed

lemma one_patch_init:
  "\<exists>patch. grassPatches (init t d (new_environment one_patch_config)) = [patch]
     \<and> length patch = 50"
proof -
  let ?e2 = "placeTrees (tree_candidates d) (tree_draws d)
               (generateTerrain t (new_environment one_patch_config))"
  have c: "config ?e2 = one_patch_config" "grassPatches ?e2 = []"
    using placeTrees_props(1) [of "tree_candidates d" "tree_draws d"
            "generateTerrain t (new_environment one_patch_config)"]
    by (simp_all add: same_ground_def placeTrees_props generateTerrain_props new_environment_def)
  have n: "grass_patchCount one_patch_config = 1" "grass_bladesPerPatch one_patch_config = 50"
    by (simp_all add: one_patch_config_def default_config_def)
  have "grassPatches (init t d (new_environment one_patch_config))
          = grassPatches (createGrassPatches t (grass_draws d) ?e2)"
    by (simp add: init_def placeVegetation_def Let_def placeRocks_props placeFlowers_props)
  also have "\<dots> = [createGrassPatch t ?e2
                      (getRandomTerrainPosition (grass_maxDistance (config ?e2)) (grass_draws d 0))
                      (\<lambda>j. grass_draws d 0 (j + 2))]"
    by (simp add: createGrassPatches_def c n createGrassPatches_step_def Let_def)
  finally show ?thesis
    by (simp add: length_createGrassPatch c n)
qed

section \<open>Properties of the day cycle\<close>

















lemma dround_1_10_again: "dround (3602879701896397 / 36028797018963968) = 3602879701896397 / 36028797018963968"
  unfolding dround_def
  by (subst fl_round_eval [where e = "- 4"]) (simp_all add: pow2_def round_even_def Let_def)






lemma dround_4_10_again: "dround (3602879701896397 / 9007199254740992) = 3602879701896397 / 9007199254740992"
  unfolding dround_def
  by (subst fl_round_eval [where e = "- 2"]) (simp_all add: pow2_def round_even_def Let_def)


lemma dround_9_10_again: "dround (8106479329266893 / 9007199254740992) = 8106479329266893 / 9007199254740992"
  unfolding dround_def
  by (subst fl_round_eval [where e = "- 1"]) (simp_all add: pow2_def round_even_def Let_def)






lemma mid_channel_zero:
  "js_trunc (dmul (dadd (ddiv 0 255) (dmul (dsub (ddiv 0 255) (ddiv 0 255)) (1 / 2))) 255) = 0"
proof -
  have a: "ddiv 0 255 = 0"
    by (simp add: ddiv_def dround_def fl_round_def)
  have s: "dsub 0 0 = 0"
    by (simp add: dsub_def dround_def fl_round_def)
  have m: "dmul 0 (1 / 2) = 0"
    by (simp add: dmul_def dround_def fl_round_def)
  have r: "dadd 0 0 = 0"
    by (simp add: dadd_def dround_def fl_round_def)
  have v: "dmul 0 255 = 0"
    by (simp add: dmul_def dround_def fl_round_def)
  show ?thesis by (simp only: a s m r v) (simp add: js_trunc_def)
qed

lemma mid_channel_blue:
  "js_trunc (dmul (dadd (ddiv 0 255) (dmul (dsub (ddiv 255 255) (ddiv 0 255)) (1 / 2))) 255) = 127"
proof -
  have a: "ddiv 0 255 = 0"
    by (simp add: ddiv_def dround_def fl_round_def)
  have b: "ddiv 255 255 = 1"
    unfolding ddiv_def dround_def
    by (subst fl_round_eval [where e = "0"]) (simp_all add: pow2_def round_even_def Let_def)
  have s: "dsub 1 0 = 1"
    unfolding dsub_def dround_def
    by (subst fl_round_eval [where e = "0"]) (simp_all add: pow2_def round_even_def Let_def)
  have m: "dmul 1 (1 / 2) = 1 / 2"
    unfolding dmul_def dround_def
    by (subst fl_round_eval [where e = "- 1"]) (simp_all add: pow2_def round_even_def Let_def)
  have r: "dadd 0 (1 / 2) = 1 / 2"
    unfolding dadd_def dround_def
    by (subst fl_round_eval [where e = "- 1"]) (simp_all add: pow2_def round_even_def Let_def)
  have v: "dmul (1 / 2) 255 = 255 / 2"
    unfolding dmul_def dround_def
    by (subst fl_round_eval [where e = "6"]) (simp_all add: pow2_def round_even_def Let_def)
  show ?thesis by (simp only: a b s m r v) (simp add: js_trunc_def)
qed






































lemma interpolateColor_truncates: "interpolateColor 0 255 (1 / 2) = 127"
  by (simp add: interpolateColor_def Color_lerp_def Color_def getHex_def vx_def vy_def vz_def
      mid_channel_zero mid_channel_blue)





section \<open>Properties of the displacement routines\<close>

lemma addRockIrregularities_origin:
  "addRockIrregularities_vertex t irregularity (0, 0, 0) = (0, 0, 0)"
  by (simp add: addRockIrregularities_vertex_def Let_def vx_def vy_def vz_def)

lemma addRockIrregularities_zero:
  "addRockIrregularities t 0 positions = positions"
proof -
  have "addRockIrregularities_vertex t 0 v = v" for v
    by (cases v) (simp add: addRockIrregularities_vertex_def Let_def vx_def vy_def vz_def)
  then show ?thesis by (simp add: addRockIrregularities_def map_idI)
qed

lemma addTrunkIrregularities_zero_vertex:
  "addTrunkIrregularities_vertex t height 0 v
     = (if height = 0 then (NaN, Num (vy v), NaN) else (Num (vx v), Num (vy v), Num (vz v)))"
  by (simp add: addTrunkIrregularities_vertex_def Let_def js_sub_def)

lemma addTrunkIrregularities_zero:
  "addTrunkIrregularities t height 0 positions
     = (if height = 0 then map (\<lambda>v. (NaN, Num (vy v), NaN)) positions else as_output positions)"
  by (simp add: addTrunkIrregularities_def addTrunkIrregularities_zero_vertex as_output_def)

lemma addTrunkIrregularities_origin:
  "addTrunkIrregularities_vertex t height irregularity (0, 0, 0)
     = (if height = 0 then (NaN, Num 0, NaN) else (Num 0, Num 0, Num 0))"
  by (simp add: addTrunkIrregularities_vertex_def Let_def vx_def vy_def vz_def js_sub_def)

lemma sqrt_one_plus_ratio:
  assumes "x \<noteq> 0"
  shows "sqrt (1 + (z / x)\<^sup>2) = sqrt (x\<^sup>2 + z\<^sup>2) / \<bar>x\<bar>"
proof -
  have "1 + (z / x)\<^sup>2 = (x\<^sup>2 + z\<^sup>2) / x\<^sup>2"
    using assms by (simp add: power_divide add_divide_distrib)
  then show ?thesis by (simp add: real_sqrt_divide)
qed

lemma atan2_polar:
  fixes x z :: real
  defines "rho \<equiv> sqrt (x\<^sup>2 + z\<^sup>2)"
  shows "rho * cos (atan2 z x) = x" and "rho * sin (atan2 z x) = z"
proof -
  have rho0: "0 \<le> rho" by (simp add: rho_def)
  have pos: "0 < rho" if "x \<noteq> 0"
    unfolding rho_def using that by (simp add: sum_power2_gt_zero_iff)
  have both: "rho * cos (atan2 z x) = x \<and> rho * sin (atan2 z x) = z"
  proof (cases "x = 0")
    case True
    then have "rho = \<bar>z\<bar>" by (simp add: rho_def)
    then show ?thesis using True by (simp add: atan2_def)
  next
    case False
    have s: "sqrt (1 + (z / x)\<^sup>2) = rho / \<bar>x\<bar>"
      unfolding rho_def by (rule sqrt_one_plus_ratio [OF False])
    have c: "cos (arctan (z / x)) = \<bar>x\<bar> / rho" and sn: "sin (arctan (z / x)) = (z / x) * (\<bar>x\<bar> / rho)"
      by (simp_all add: cos_arctan sin_arctan s)
    show ?thesis
    proof (cases "0 < x")
      case True
      then show ?thesis using pos [OF False] by (simp add: atan2_def c sn)
    next
      case neg: False
      then have "x < 0" using False by simp
      then show ?thesis using pos [OF False] by (simp add: atan2_def c sn)
    qed
  qed
  then show "rho * cos (atan2 z x) = x" and "rho * sin (atan2 z x) = z" by simp_all
qed

lemma addSphereIrregularities_zero_elsewhere:
  assumes "v \<noteq> (0, 0, 0)"
  shows "addSphereIrregularities_vertex t 0 v = (Num (vx v), Num (vy v), Num (vz v))"
proof -
  obtain x y z where v: "v = (x, y, z)" by (cases v) auto
  define r where "r = sqrt (x * x + y * y + z * z)"
  define rho where "rho = sqrt (x\<^sup>2 + z\<^sup>2)"
  have sq: "x * x + y * y + z * z = x\<^sup>2 + y\<^sup>2 + z\<^sup>2" by (simp add: power2_eq_square)
  have nz: "x \<noteq> 0 \<or> y \<noteq> 0 \<or> z \<noteq> 0" using assms v by simp
  have "0 < x\<^sup>2 + y\<^sup>2 + z\<^sup>2"
  proof (cases "z = 0")
    case True
    then have "0 < x\<^sup>2 + y\<^sup>2" using nz by (simp add: sum_power2_gt_zero_iff)
    then show ?thesis using True by simp
  next
    case False
    then have "0 < z\<^sup>2" by simp
    moreover have "0 \<le> x\<^sup>2 + y\<^sup>2" by simp
    ultimately show ?thesis by (rule add_nonneg_pos [rotated])
  qed
  then have r: "0 < r" by (simp add: r_def sq)
  have r2: "r\<^sup>2 = x\<^sup>2 + y\<^sup>2 + z\<^sup>2" by (simp add: r_def sq)
  have "y\<^sup>2 \<le> r\<^sup>2" by (simp add: r2)
  then have "\<bar>y\<bar> \<le> \<bar>r\<bar>" by (simp only: abs_le_square_iff)
  then have u: "- 1 \<le> y / r" "y / r \<le> 1" using r by (simp_all add: field_simps abs_le_iff)
  have "r * sqrt (1 - (y / r)\<^sup>2) = sqrt (r\<^sup>2 * (1 - (y / r)\<^sup>2))"
    using r by (simp add: real_sqrt_mult)
  also have "r\<^sup>2 * (1 - (y / r)\<^sup>2) = x\<^sup>2 + z\<^sup>2"
  proof -
    have "r\<^sup>2 * (1 - (y / r)\<^sup>2) = r\<^sup>2 - y\<^sup>2"
      using r by (simp add: power_divide right_diff_distrib)
    then show ?thesis by (simp add: r2)
  qed
  finally have rs: "r * sin (arccos (y / r)) = rho"
    using u by (simp add: sin_arccos rho_def)
  have rc: "r * cos (arccos (y / r)) = y" using u r by simp
  have px: "rho * cos (atan2 z x) = x" and pz: "rho * sin (atan2 z x) = z"
    unfolding rho_def by (rule atan2_polar)+
  have ph: "acos_ratio y r = Num (arccos (y / r))" using r by (simp add: acos_ratio_def)
  show ?thesis
    using rs rc px pz
    by (simp add: v addSphereIrregularities_vertex_def Let_def vx_def vy_def vz_def
        r_def [symmetric] ph)
qed

section \<open>Claims about noise and terrain\<close>

text \<open>
  Claim C7. For all real coordinates and every valid permutation table, the 2D noise
  function returns a value in \<open>[-1, 1]\<close>. Over the reals the bound is exact, so no
  overshoot is needed.
\<close>

theorem noise_range:
  assumes "valid_table t"
  shows "- 1 \<le> noise t x y \<and> noise t x y \<le> 1"
  using noise_abs_le_one [of t x y] by (simp add: abs_le_iff)

theorem noise_range_witness:
  "valid_table identity_table
   \<and> - 1 \<le> noise identity_table (1 / 2) (7 / 3) \<and> noise identity_table (1 / 2) (7 / 3) \<le> 1"
  using noise_range [of identity_table "1 / 2" "7 / 3"] valid_identity_table by simp

text \<open>
  Claim C10. At an integer lattice point the fractional offsets are 0, the fade weights
  are 0 and every gradient dotted with the zero offset is 0, so the 2D noise is exactly 0
  for every valid table; hence the terrain height, queried or written into a generated
  vertex, is 0 at the origin and at every point whose scaled coordinates are integers.
\<close>

theorem noise_zero_at_lattice:
  assumes "valid_table t"
  shows "frac_part (of_int i) = 0 \<and> frac_part (of_int j) = 0
         \<and> fade (frac_part (of_int i)) = 0 \<and> fade (frac_part (of_int j)) = 0
         \<and> grad2D hash 0 0 = 0
         \<and> noise t (of_int i) (of_int j) = 0
         \<and> getTerrainHeightAt t env 0 0 = 0
         \<and> (x * terrain_noiseScale (config env) \<in> \<int> \<and> z * terrain_noiseScale (config env) \<in> \<int>
              \<longrightarrow> getTerrainHeightAt t env x z = 0
                  \<and> vy (generateTerrain_vertex t (config env) (x, y, z)) = 0)"
proof -
  have n0: "noise t a b = 0" if "a \<in> \<int>" "b \<in> \<int>" for a b
    using that noise_lattice_zero by (auto elim!: Ints_cases)
  have m: "a * k \<in> \<int>" if "a \<in> \<int>" for a :: real and k :: int
    using that by simp
  have h: "getTerrainHeightAt t env a b = 0"
    if "a * terrain_noiseScale (config env) \<in> \<int>" "b * terrain_noiseScale (config env) \<in> \<int>" for a b
  proof -
    have "a * terrain_noiseScale (config env) * 2 \<in> \<int>" "b * terrain_noiseScale (config env) * 2 \<in> \<int>"
      "a * terrain_noiseScale (config env) * 4 \<in> \<int>" "b * terrain_noiseScale (config env) * 4 \<in> \<int>"
      using that by simp_all
    then show ?thesis using that by (simp add: getTerrainHeightAt_def Let_def n0)
  qed
  have g: "vy (generateTerrain_vertex t (config env) (x, y, z)) = 0"
    if "x * terrain_noiseScale (config env) \<in> \<int>" "z * terrain_noiseScale (config env) \<in> \<int>"
  proof -
    have "x * terrain_noiseScale (config env) * 2 \<in> \<int>" "z * terrain_noiseScale (config env) * 2 \<in> \<int>"
      "x * terrain_noiseScale (config env) * 4 \<in> \<int>" "z * terrain_noiseScale (config env) * 4 \<in> \<int>"
      using that by simp_all
    then show ?thesis
      using that
      by (simp add: generateTerrain_vertex_def Let_def n0 vx_def vy_def vz_def fround_zero)
  qed
  have "getTerrainHeightAt t env 0 0 = 0" by (rule h) simp_all
  then show ?thesis
    using h [of x z] g by (simp add: frac_part_def fade_zero grad2D_zero noise_lattice_zero)
qed

theorem noise_zero_at_lattice_witness:
  "valid_table identity_table
   \<and> noise identity_table 3 (- 2) = 0
   \<and> getTerrainHeightAt identity_table (generateTerrain identity_table (new_environment default_config)) 0 0 = 0
   \<and> getTerrainHeightAt identity_table (generateTerrain identity_table (new_environment default_config)) 20 (- 40) = 0"
  using noise_zero_at_lattice [of identity_table 3 "- 2" 0
          "generateTerrain identity_table (new_environment default_config)" 20 "- 40" 0]
        valid_identity_table
  by (simp add: generateTerrain_def new_environment_def default_config_def Let_def)




text \<open>
  Claim C6. For at least one octave and a persistence in \<open>(0, 1]\<close>, \<open>fractalNoise\<close> is
  the sum of the octaves divided by the sum of their amplitudes, and it lies in \<open>[-1, 1]\<close>
  whenever every call of the 2D noise does.
\<close>

theorem fractalNoise_range:
  assumes "\<forall>a b. - 1 \<le> noise t a b \<and> noise t a b \<le> 1"
    and "1 \<le> octaves" and "0 < persistence" and "persistence \<le> 1"
  shows "fractalNoise t x y octaves persistence
           = (\<Sum>i<octaves. noise t (x * 2 ^ i) (y * 2 ^ i) * persistence ^ i)
               / (\<Sum>i<octaves. persistence ^ i)
         \<and> - 1 \<le> fractalNoise t x y octaves persistence
         \<and> fractalNoise t x y octaves persistence \<le> 1"
proof -
  have "\<forall>a b. \<bar>noise t a b\<bar> \<le> 1" using assms(1) by (simp add: abs_le_iff)
  then have "\<bar>fractalNoise t x y octaves persistence\<bar> \<le> 1"
    using assms(2,3) by (rule fractalNoise_abs)
  then have b: "- 1 \<le> fractalNoise t x y octaves persistence
      \<and> fractalNoise t x y octaves persistence \<le> 1"
    by linarith
  have c: "fractalNoise t x y octaves persistence
           = (\<Sum>i<octaves. noise t (x * 2 ^ i) (y * 2 ^ i) * persistence ^ i)
               / (\<Sum>i<octaves. persistence ^ i)"
    by (rule fractalNoise_closed)
  from c b show ?thesis by blast
qed

theorem fractalNoise_range_witness:
  "(\<forall>a b. - 1 \<le> noise identity_table a b \<and> noise identity_table a b \<le> 1)
   \<and> (1::nat) \<le> 4 \<and> (0::real) < 1 / 2 \<and> (1 / 2 :: real) \<le> 1
   \<and> - 1 \<le> fractalNoise identity_table (3 / 10) (7 / 10) 4 (1 / 2)
   \<and> fractalNoise identity_table (3 / 10) (7 / 10) 4 (1 / 2) \<le> 1"
proof -
  have h: "\<forall>a b. - 1 \<le> noise identity_table a b \<and> noise identity_table a b \<le> 1"
    using noise_abs_le_one [of identity_table] by (simp add: abs_le_iff)
  show ?thesis
    using fractalNoise_range [OF h, of 4 "1 / 2" "3 / 10" "7 / 10"] h by simp
qed


section \<open>Claims about placement\<close>

text \<open>
  Claim C2. For every run of \<open>placeTrees\<close> (every sequence of draws, every count and
  minimum distance), the accepted positions are the positions of the trees added, there are
  at most \<open>count\<close> of them, and any two distinct ones are at least \<open>minDistance\<close> apart.
\<close>

theorem placeTrees_min_distance:
  "let st = placeTrees_run cand tr env; ps = placedPositions st; c = config env
   in map tree_position (trees (placeTrees cand tr env)) = map tree_position (trees env) @ ps
      \<and> length ps \<le> trees_count c
      \<and> (\<forall>i < length ps. \<forall>j < length ps. i \<noteq> j
            \<longrightarrow> trees_minDistance c \<le> distanceTo (ps ! i) (ps ! j))"
  using placement_inv_run [of cand env tr]
  by (simp add: placement_inv_def placeTrees_def apart_def Let_def)

theorem placeTrees_min_distance_witness:
  "placedPositions (placeTrees_run two_tree_candidates (\<lambda>i j. 0) (new_environment two_tree_config))
     = [(0, 0, 0), (40, 0, 0)]
   \<and> (0::nat) < 2 \<and> (1::nat) < 2 \<and> (0::nat) \<noteq> 1
   \<and> trees_minDistance two_tree_config \<le> distanceTo (0, 0, 0) (40, 0, 0)"
proof -
  let ?ps = "placedPositions (placeTrees_run two_tree_candidates (\<lambda>i j. 0) (new_environment two_tree_config))"
  have ps: "?ps = [(0, 0, 0), (40, 0, 0)]" by (rule two_tree_run)
  have q: "\<forall>i < length ?ps. \<forall>j < length ?ps. i \<noteq> j
          \<longrightarrow> trees_minDistance (config (new_environment two_tree_config)) \<le> distanceTo (?ps ! i) (?ps ! j)"
    using placeTrees_min_distance [of two_tree_candidates "\<lambda>i j. 0" "new_environment two_tree_config"]
    by (simp add: Let_def)
  have "trees_minDistance (config (new_environment two_tree_config)) \<le> distanceTo (?ps ! 0) (?ps ! 1)"
    using q [rule_format, of 0 1] by (simp add: ps)
  moreover have "config (new_environment two_tree_config) = two_tree_config"
    by (simp add: new_environment_def)
  ultimately have "trees_minDistance two_tree_config \<le> distanceTo (0, 0, 0) (40, 0, 0)"
    unfolding ps by simp
  with ps show ?thesis by simp
qed



text \<open>
  Claim C5. Whatever is drawn, \<open>placeTrees\<close> draws at most \<open>count * 50\<close> candidate
  positions; when no \<open>count\<close> points of the disk are pairwise \<open>minDistance\<close> apart (as for
  10 trees, 20 apart, within 15 of the origin), fewer than \<open>count\<close> trees are placed; and
  the rest of the generation runs to its end: all grass patches, flowers and rocks are
  created. The model is a total function, so no run raises an error or fails to return.
\<close>

theorem placeTrees_infeasible:
  assumes "\<forall>k. unit_draws (tree_candidates d k)"
  shows "let c = config env;
             st = placeTrees_run (tree_candidates d) (tree_draws d) (generateTerrain t env);
             e = init t d env
         in drawn st \<le> trees_count c * 50
            \<and> \<not> feasible 10 20 15
            \<and> (\<not> feasible (trees_count c) (trees_minDistance c) (trees_maxDistance c)
                 \<longrightarrow> length (placedPositions st) < trees_count c)
            \<and> length (trees e) = length (trees env) + length (placedPositions st)
            \<and> length (grassPatches e) = length (grassPatches env) + grass_patchCount c
            \<and> length (flowers e) = length (flowers env) + flowers_count c
            \<and> length (rocks e) = length (rocks env) + rocks_count c"
proof -
  let ?c = "config env"
  let ?e1 = "generateTerrain t env"
  let ?st = "placeTrees_run (tree_candidates d) (tree_draws d) ?e1"
  have c1: "config ?e1 = ?c" by (rule generateTerrain_props)
  have inv: "placement_inv (tree_candidates d) ?e1 (trees_count ?c) ?st"
    using placement_inv_run [of "tree_candidates d" ?e1 "tree_draws d"] by (simp add: c1)
  have dr: "drawn ?st \<le> trees_count ?c * 50"
    using inv by (simp add: placement_inv_def maxAttempts_def)
  have le: "length (placedPositions ?st) \<le> trees_count ?c"
    and ap: "apart (trees_minDistance ?c) (placedPositions ?st)"
    using inv by (simp_all add: placement_inv_def c1)
  have dk: "\<forall>p \<in> set (placedPositions ?st). in_disk (trees_maxDistance ?c) p"
    using placed_in_disk [OF assms inv] by (simp add: c1)
  have few: "length (placedPositions ?st) < trees_count ?c"
    if "\<not> feasible (trees_count ?c) (trees_minDistance ?c) (trees_maxDistance ?c)"
  proof (rule ccontr)
    assume "\<not> length (placedPositions ?st) < trees_count ?c"
    then have "length (placedPositions ?st) = trees_count ?c" using le by simp
    then have "feasible (trees_count ?c) (trees_minDistance ?c) (trees_maxDistance ?c)"
      unfolding feasible_def using dk ap by blast
    then show False using that by simp
  qed
  have "map tree_position (trees (p_env ?st)) = map tree_position (trees ?e1) @ placedPositions ?st"
    using inv by (simp add: placement_inv_def)
  then have "length (map tree_position (trees (p_env ?st)))
               = length (map tree_position (trees ?e1) @ placedPositions ?st)"
    by (rule arg_cong)
  then have tl: "length (trees (init t d env)) = length (trees env) + length (placedPositions ?st)"
    by (simp add: init_props(1) placeTrees_def generateTerrain_props)
  show ?thesis
    using dr infeasible_example few tl init_props(2,3,4) [of t d env]
    by (simp add: Let_def)
qed

theorem placeTrees_infeasible_witness:
  "(\<forall>k. unit_draws (tree_candidates zero_draws k))
   \<and> \<not> feasible (trees_count dense_config) (trees_minDistance dense_config)
         (trees_maxDistance dense_config)
   \<and> drawn (placeTrees_run (tree_candidates zero_draws) (tree_draws zero_draws)
              (generateTerrain identity_table (new_environment dense_config))) \<le> 500
   \<and> length (placedPositions (placeTrees_run (tree_candidates zero_draws) (tree_draws zero_draws)
              (generateTerrain identity_table (new_environment dense_config)))) < 10
   \<and> length (grassPatches (init identity_table zero_draws (new_environment dense_config))) = 300
   \<and> length (flowers (init identity_table zero_draws (new_environment dense_config))) = 200
   \<and> length (rocks (init identity_table zero_draws (new_environment dense_config))) = 80"
proof -
  have u: "\<forall>k. unit_draws (tree_candidates zero_draws k)"
    by (simp add: zero_draws_def unit_draws_def)
  have c: "config (new_environment dense_config) = dense_config"
    "trees_count dense_config = 10" "trees_minDistance dense_config = 20"
    "trees_maxDistance dense_config = 15" "grass_patchCount dense_config = 300"
    "flowers_count dense_config = 200" "rocks_count dense_config = 80"
    "grassPatches (new_environment dense_config) = []"
    "flowers (new_environment dense_config) = []" "rocks (new_environment dense_config) = []"
    by (simp_all add: new_environment_def dense_config_def default_config_def)
  have f: "\<not> feasible (trees_count dense_config) (trees_minDistance dense_config)
         (trees_maxDistance dense_config)"
    using infeasible_example by (simp add: c)
  show ?thesis
    using placeTrees_infeasible [OF u, of "new_environment dense_config" identity_table] u f
    by (simp add: Let_def c)
qed



text \<open>
  Claim C4 says that every placed instance (tree, grass blade, flower, rock) has its \<open>y\<close>
  at the terrain height of its \<open>(x, z)\<close>. It fails: \<open>createFlower\<close> puts a flower
  \<open>0.1\<close> above the ground, and \<open>createTree\<close> keeps the \<open>y = 0\<close> of the drawn position,
  while the terrain at \<open>(10, 0)\<close> is at height 4.
\<close>

theorem instance_height_counterexample:
  "vy (flower_position (createFlower identity_table generated_default (0, 0, 0) no_draws))
     \<noteq> getTerrainHeightAt identity_table generated_default
         (vx (flower_position (createFlower identity_table generated_default (0, 0, 0) no_draws)))
         (vz (flower_position (createFlower identity_table generated_default (0, 0, 0) no_draws)))
   \<and> vy (tree_position (createTree default_config (10, 0, 0) no_draws))
     \<noteq> getTerrainHeightAt identity_table generated_default
         (vx (tree_position (createTree default_config (10, 0, 0) no_draws)))
         (vz (tree_position (createTree default_config (10, 0, 0) no_draws)))"
proof -
  have "flower_position (createFlower identity_table generated_default (0, 0, 0) no_draws)
          = (0, 1 / 10, 0)"
    by (simp add: createFlower_def Let_def vx_def vz_def height_default_0)
  moreover have "tree_position (createTree default_config (10, 0, 0) no_draws) = (10, 0, 0)"
    by (simp add: createTree_def Let_def)
  ultimately show ?thesis
    by (simp add: vx_def vy_def vz_def height_default_0 height_default_10)
qed


text \<open>
  Claim C4 as amended. After \<open>init\<close> on a fresh environment, every grass blade and every
  rock has its \<open>y\<close> at the terrain height of its \<open>(x, z)\<close>, and every flower has its \<open>y\<close>
  exactly \<open>0.1\<close> above that height. Nothing is stated about trees.
\<close>

theorem instances_on_ground:
  "(\<forall>patch \<in> set (grassPatches (init t d (new_environment c))). \<forall>b \<in> set patch.
       vy (blade_position b)
         = getTerrainHeightAt t (init t d (new_environment c))
             (vx (blade_position b)) (vz (blade_position b)))
   \<and> (\<forall>r \<in> set (rocks (init t d (new_environment c))).
       vy (rock_position r)
         = getTerrainHeightAt t (init t d (new_environment c))
             (vx (rock_position r)) (vz (rock_position r)))
   \<and> (\<forall>f \<in> set (flowers (init t d (new_environment c))).
       vy (flower_position f)
         = getTerrainHeightAt t (init t d (new_environment c))
             (vx (flower_position f)) (vz (flower_position f)) + 1 / 10)"
  using grounded_init [of t d c] by (simp add: grounded_env_def on_ground_def)


theorem instances_on_ground_witness:
  "hd (hd (grassPatches (init identity_table zero_draws (new_environment one_patch_config))))
     \<in> set (hd (grassPatches (init identity_table zero_draws (new_environment one_patch_config))))
   \<and> hd (grassPatches (init identity_table zero_draws (new_environment one_patch_config)))
     \<in> set (grassPatches (init identity_table zero_draws (new_environment one_patch_config)))
   \<and> vy (blade_position (hd (hd (grassPatches (init identity_table zero_draws (new_environment one_patch_config))))))
     = getTerrainHeightAt identity_table (init identity_table zero_draws (new_environment one_patch_config))
         (vx (blade_position (hd (hd (grassPatches (init identity_table zero_draws (new_environment one_patch_config)))))))
         (vz (blade_position (hd (hd (grassPatches (init identity_table zero_draws (new_environment one_patch_config)))))))
   \<and> hd (rocks (init identity_table zero_draws (new_environment one_patch_config)))
     \<in> set (rocks (init identity_table zero_draws (new_environment one_patch_config)))
   \<and> vy (rock_position (hd (rocks (init identity_table zero_draws (new_environment one_patch_config)))))
     = getTerrainHeightAt identity_table (init identity_table zero_draws (new_environment one_patch_config))
         (vx (rock_position (hd (rocks (init identity_table zero_draws (new_environment one_patch_config))))))
         (vz (rock_position (hd (rocks (init identity_table zero_draws (new_environment one_patch_config))))))
   \<and> hd (flowers (init identity_table zero_draws (new_environment one_patch_config)))
     \<in> set (flowers (init identity_table zero_draws (new_environment one_patch_config)))
   \<and> vy (flower_position (hd (flowers (init identity_table zero_draws (new_environment one_patch_config)))))
     = getTerrainHeightAt identity_table (init identity_table zero_draws (new_environment one_patch_config))
         (vx (flower_position (hd (flowers (init identity_table zero_draws (new_environment one_patch_config))))))
         (vz (flower_position (hd (flowers (init identity_table zero_draws (new_environment one_patch_config))))))
       + 1 / 10"
proof -
  let ?e = "init identity_table zero_draws (new_environment one_patch_config)"
  obtain patch where p: "grassPatches ?e = [patch]" "length patch = 50"
    using one_patch_init by blast
  then have "patch \<noteq> []" by auto
  then have g: "hd (grassPatches ?e) \<in> set (grassPatches ?e)"
    "hd (hd (grassPatches ?e)) \<in> set (hd (grassPatches ?e))"
    using p by simp_all
  have "length (rocks ?e) = 80" "length (flowers ?e) = 200"
    by (simp_all add: init_props new_environment_def one_patch_config_def default_config_def)
  then have "rocks ?e \<noteq> []" "flowers ?e \<noteq> []" by auto
  then have r: "hd (rocks ?e) \<in> set (rocks ?e)" and f: "hd (flowers ?e) \<in> set (flowers ?e)"
    by simp_all
  show ?thesis
    using instances_on_ground [of identity_table zero_draws one_patch_config] g r f
    by blast
qed



section \<open>Claims about the day cycle\<close>




section \<open>Claims about mesh displacement\<close>

text \<open>
  Claim C8 asks that every displacement routine leaves a vertex at the origin unchanged
  and never writes NaN. \<open>addRockIrregularities\<close> guards the normalisation with
  \<open>length > 0\<close> and keeps the origin. \<open>addTrunkIrregularities\<close> multiplies the zero
  coordinates and keeps the origin unless the height it divides by is 0, where it writes
  NaN into \<open>x\<close> and \<open>z\<close>. \<open>addSphereIrregularities\<close> has no guard and writes NaN into
  all three coordinates of a vertex at the origin, for every table and strength.
\<close>

theorem addSphereIrregularities_origin_nan:
  "addSphereIrregularities t strength [(0, 0, 0)] = [(NaN, NaN, NaN)]
   \<and> addRockIrregularities t irregularity [(0, 0, 0)] = [(0, 0, 0)]
   \<and> addTrunkIrregularities t height irregularity [(0, 0, 0)]
       = (if height = 0 then [(NaN, Num 0, NaN)] else [(Num 0, Num 0, Num 0)])"
  by (simp add: addSphereIrregularities_def addSphereIrregularities_vertex_def acos_ratio_def
      Let_def vx_def vy_def vz_def addRockIrregularities_def addRockIrregularities_origin
      addTrunkIrregularities_def addTrunkIrregularities_origin)

text \<open>
  Claim C9 asks that a displacement with strength 0 returns the input buffer. The rock
  routine does, and so does the trunk routine unless the height it divides by is 0, where
  it writes NaN into \<open>x\<close> and \<open>z\<close> of every vertex. Over the real numbers
  \<open>addSphereIrregularities\<close> with strength 0 returns every vertex other than the origin
  unchanged, but it turns a vertex at the origin into NaN.
\<close>

theorem addSphereIrregularities_zero_not_identity:
  "addSphereIrregularities t 0 [(1, 0, 0), (0, 0, 0)] = [(Num 1, Num 0, Num 0), (NaN, NaN, NaN)]
   \<and> addSphereIrregularities t 0 [(1, 0, 0), (0, 0, 0)] \<noteq> as_output [(1, 0, 0), (0, 0, 0)]
   \<and> addRockIrregularities t 0 positions = positions
   \<and> addTrunkIrregularities t height 0 positions
       = (if height = 0 then map (\<lambda>v. (NaN, Num (vy v), NaN)) positions
          else as_output positions)"
proof -
  have a: "addSphereIrregularities_vertex t 0 (1, 0, 0) = (Num 1, Num 0, Num 0)"
    using addSphereIrregularities_zero_elsewhere [of "(1, 0, 0)" t]
    by (simp add: vx_def vy_def vz_def)
  have b: "addSphereIrregularities_vertex t 0 (0, 0, 0) = (NaN, NaN, NaN)"
    by (simp add: addSphereIrregularities_vertex_def acos_ratio_def Let_def vx_def vy_def vz_def)
  have c: "addSphereIrregularities t 0 [(1, 0, 0), (0, 0, 0)]
             = [(Num 1, Num 0, Num 0), (NaN, NaN, NaN)]"
    by (simp add: addSphereIrregularities_def a b)
  have d: "addSphereIrregularities t 0 [(1, 0, 0), (0, 0, 0)] \<noteq> as_output [(1, 0, 0), (0, 0, 0)]"
    unfolding c by (simp add: as_output_def vx_def vy_def vz_def)
  show ?thesis
    by (rule conjI [OF c conjI [OF d conjI [OF addRockIrregularities_zero
          addTrunkIrregularities_zero]]])
qed

end
